theory Spec2Isabelle
  imports Main
begin

section \<open>Python values, exceptions and the operations the code applies to them\<close>

text \<open>
  Every payload of the framework is what \<^verbatim>\<open>response.json()\<close> or \<^verbatim>\<open>yaml.safe_load\<close>
  hands back: \<^verbatim>\<open>None\<close>, a boolean, a number, a string, a list or a dictionary. A
  dictionary is an association list (insertion order kept, lookup finds the first
  binding of a key). A float is a finite value \<open>m * 2 ^ e\<close>, an infinity with its
  sign, or not a number. Python's absent value and JSON's \<^verbatim>\<open>null\<close> are the same
  object, so both are \<open>PNone\<close>.
\<close>

datatype pyfloat = Finite int int | Infinity bool | NotANumber

datatype pyval =
    PNone
  | PBool bool
  | PInt int
  | PFloat pyfloat
  | PStr string
  | PList "pyval list"
  | PDict "(string \<times> pyval) list"

type_synonym pydict = "(string \<times> pyval) list"

datatype exn_class =
    AttributeError | TypeError | KeyError | JSONDecodeError | RequestException
  | YAMLError | FileNotFoundError | ValueError | OSError | RuntimeError
  | UnicodeEncodeError | PicklingError

text \<open>
  An exception is its class and the text \<^verbatim>\<open>str(e)\<close> gives. Only subclasses of
  \<^verbatim>\<open>Exception\<close> are modelled: those are what \<^verbatim>\<open>except Exception\<close> catches.
\<close>

datatype exn = Raise exn_class string

fun str_exn :: "exn \<Rightarrow> string" where
  "str_exn (Raise c m) = m"

fun type_name :: "pyval \<Rightarrow> string" where
  "type_name PNone = ''NoneType''"
| "type_name (PBool b) = ''bool''"
| "type_name (PInt i) = ''int''"
| "type_name (PFloat f) = ''float''"
| "type_name (PStr s) = ''str''"
| "type_name (PList xs) = ''list''"
| "type_name (PDict kvs) = ''dict''"

definition quoted :: "string \<Rightarrow> string" where
  "quoted s = CHR 0x27 # s @ [CHR 0x27]"

definition no_attribute :: "pyval \<Rightarrow> string \<Rightarrow> exn" where
  "no_attribute v a =
     Raise AttributeError (quoted (type_name v) @ '' object has no attribute '' @ quoted a)"

text \<open>\<^verbatim>\<open>bool(v)\<close>, as \<^verbatim>\<open>if v\<close> and \<^verbatim>\<open>not v\<close> use it.\<close>

fun truthy :: "pyval \<Rightarrow> bool" where
  "truthy PNone = False"
| "truthy (PBool b) = b"
| "truthy (PInt i) = (i \<noteq> 0)"
| "truthy (PFloat f) = (case f of Finite m e \<Rightarrow> m \<noteq> 0 | _ \<Rightarrow> True)"
| "truthy (PStr s) = (s \<noteq> [])"
| "truthy (PList xs) = (xs \<noteq> [])"
| "truthy (PDict kvs) = (kvs \<noteq> [])"

fun is_list :: "pyval \<Rightarrow> bool" where
  "is_list (PList xs) = True"
| "is_list v = False"

fun is_dict :: "pyval \<Rightarrow> bool" where
  "is_dict (PDict kvs) = True"
| "is_dict v = False"

definition dict_get :: "pydict \<Rightarrow> string \<Rightarrow> pyval \<Rightarrow> pyval" where
  "dict_get d k dflt = (case map_of d k of Some v \<Rightarrow> v | None \<Rightarrow> dflt)"

text \<open>\<^verbatim>\<open>v.get(k, dflt)\<close>: only a dictionary has the method.\<close>

fun py_get :: "pyval \<Rightarrow> string \<Rightarrow> pyval \<Rightarrow> exn + pyval" where
  "py_get (PDict d) k dflt = Inr (dict_get d k dflt)"
| "py_get v k dflt = Inl (no_attribute v ''get'')"

text \<open>\<^verbatim>\<open>d[k]\<close> on a dictionary: a missing key raises \<^verbatim>\<open>KeyError\<close>.\<close>

definition dict_item :: "pydict \<Rightarrow> string \<Rightarrow> exn + pyval" where
  "dict_item d k = (case map_of d k of Some v \<Rightarrow> Inr v | None \<Rightarrow> Inl (Raise KeyError (quoted k)))"

text \<open>\<^verbatim>\<open>len(v)\<close>.\<close>

fun py_len :: "pyval \<Rightarrow> exn + nat" where
  "py_len (PStr s) = Inr (length s)"
| "py_len (PList xs) = Inr (length xs)"
| "py_len (PDict kvs) = Inr (length kvs)"
| "py_len v = Inl (Raise TypeError (''object of type '' @ quoted (type_name v) @ '' has no len()''))"

text \<open>
  \<^verbatim>\<open>for x in v\<close>: the elements of a list, the one-character strings of a string, the
  keys of a dictionary.
\<close>

fun py_iter :: "pyval \<Rightarrow> exn + pyval list" where
  "py_iter (PList xs) = Inr xs"
| "py_iter (PStr s) = Inr (map (\<lambda>c. PStr [c]) s)"
| "py_iter (PDict kvs) = Inr (map (\<lambda>kv. PStr (fst kv)) kvs)"
| "py_iter v = Inl (Raise TypeError (quoted (type_name v) @ '' object is not iterable''))"

text \<open>
  \<^verbatim>\<open>v[:n]\<close>. A dictionary rejects the slice as a key (\<^verbatim>\<open>TypeError\<close> before
  Python 3.12, \<^verbatim>\<open>KeyError\<close> from then on; both are caught alike by the callers).
\<close>

fun py_slice_to :: "pyval \<Rightarrow> nat \<Rightarrow> exn + pyval" where
  "py_slice_to (PStr s) n = Inr (PStr (take n s))"
| "py_slice_to (PList xs) n = Inr (PList (take n xs))"
| "py_slice_to (PDict kvs) n = Inl (Raise TypeError ''unhashable type: slice'')"
| "py_slice_to v n = Inl (Raise TypeError (quoted (type_name v) @ '' object is not subscriptable''))"

text \<open>Sequencing in a \<^verbatim>\<open>try\<close> body: the first exception ends it.\<close>

fun bindE :: "exn + 'a \<Rightarrow> ('a \<Rightarrow> exn + 'b) \<Rightarrow> exn + 'b" where
  "bindE (Inl e) f = Inl e"
| "bindE (Inr x) f = f x"

section \<open>The console\<close>

text \<open>
  \<^verbatim>\<open>print\<close> encodes its line for the console and raises \<^verbatim>\<open>UnicodeEncodeError\<close>
  when a character has no encoding there. A console says which values it can write
  when a line interpolates them, and with which text it refuses one. ASCII text
  (strings are kept as their UTF-8 bytes), numbers, booleans and \<^verbatim>\<open>None\<close> can
  always be written, and so can the text of an exception and what \<^verbatim>\<open>json.dumps\<close>
  gives (it escapes every other character); the three marks of the log lines are
  not ASCII and are asked for like any string.
\<close>

record console =
  renders :: "pyval \<Rightarrow> bool"
  refusal :: "pyval \<Rightarrow> string"

definition is_ascii :: "string \<Rightarrow> bool" where
  "is_ascii s = list_all (\<lambda>c. (of_char c :: nat) < 128) s"

fun printable :: "console \<Rightarrow> pyval \<Rightarrow> bool" where
  "printable con PNone = True"
| "printable con (PBool b) = True"
| "printable con (PInt i) = True"
| "printable con (PFloat f) = True"
| "printable con (PStr s) = (is_ascii s \<or> renders con (PStr s))"
| "printable con v = renders con v"

text \<open>One call of \<^verbatim>\<open>print\<close> whose line interpolates the given values, in this order.\<close>

definition echo :: "console \<Rightarrow> pyval list \<Rightarrow> exn + unit" where
  "echo con vs =
     (case find (\<lambda>v. \<not> printable con v) vs of
        None \<Rightarrow> Inr ()
      | Some v \<Rightarrow> Inl (Raise UnicodeEncodeError (refusal con v)))"

definition check_mark :: string where
  "check_mark = [CHR 0xE2, CHR 0x9C, CHR 0x93]"

definition cross_mark :: string where
  "cross_mark = [CHR 0xE2, CHR 0x9C, CHR 0x97]"

definition circle_mark :: string where
  "circle_mark = [CHR 0xE2, CHR 0x97, CHR 0x8B]"

section \<open>The HTTP boundary\<close>

text \<open>
  A request is what the client hands to its \<^verbatim>\<open>requests.Session\<close>. The URL is the
  formatted prefix; on the item endpoint the identifier that the source interpolates
  after it is kept as the value it is. A header is a literal or the bearer token.
\<close>

datatype verb = GET | POST | PUT

datatype header = Plain string | Bearer pyval

record request =
  req_verb :: verb
  req_url :: string
  req_item :: "pyval option"
  req_headers :: "(string \<times> header) list option"
  req_json :: "pyval option"
  req_auth :: "(pyval \<times> pyval) option"
  req_timeout :: pyval

text \<open>
  A response is its status code and what \<^verbatim>\<open>response.json()\<close> does: raise, or give
  the parsed body.
\<close>

record response =
  status_code :: int
  json :: "exn + pyval"

text \<open>
  The remote service together with the session (cookies, connections) is a world
  \<open>'w\<close> that each request may change; sending raises on a transport-level failure.
\<close>

type_synonym 'w transport = "request \<Rightarrow> 'w \<Rightarrow> (exn + response) \<times> 'w"

section \<open>api\_client.py\<close>

record client =
  base_url :: string
  timeout :: pyval
  token :: pyval

definition rstrip_slash :: "string \<Rightarrow> string" where
  "rstrip_slash s = rev (dropWhile (\<lambda>c. c = CHR ''/'') (rev s))"

text \<open>\<^verbatim>\<open>APIClient.__init__\<close>: \<^verbatim>\<open>base_url.rstrip('/')\<close> needs a string.\<close>

fun APIClient :: "pyval \<Rightarrow> pyval \<Rightarrow> exn + client" where
  "APIClient (PStr u) t = Inr \<lparr>base_url = rstrip_slash u, timeout = t, token = PNone\<rparr>"
| "APIClient v t = Inl (no_attribute v ''rstrip'')"

definition register_request :: "client \<Rightarrow> pyval \<Rightarrow> pyval \<Rightarrow> request" where
  "register_request c username password =
     \<lparr>req_verb = POST, req_url = base_url c @ ''/register'', req_item = None,
      req_headers = None,
      req_json = Some (PDict [(''username'', username), (''password'', password)]),
      req_auth = None, req_timeout = timeout c\<rparr>"

text \<open>
  \<^verbatim>\<open>register\<close>. The lines that report success interpolate the username and stand inside
  the \<^verbatim>\<open>try\<close>: when one cannot be written, the handler returns \<^verbatim>\<open>False\<close>. The line
  of the last branch interpolates \<^verbatim>\<open>response.text\<close>; written or not, the result is
  \<^verbatim>\<open>False\<close>. The handler prints the exception only.
\<close>

definition register ::
  "console \<Rightarrow> 'w transport \<Rightarrow> client \<Rightarrow> pyval \<Rightarrow> pyval \<Rightarrow> 'w \<Rightarrow> bool \<times> 'w" where
  "register con send c username password w =
     (case send (register_request c username password) w of
        (Inl e, w') \<Rightarrow> (False, w')
      | (Inr r, w') \<Rightarrow>
          if status_code r = 200 then
            (case echo con [username] of Inl e \<Rightarrow> (False, w') | Inr u \<Rightarrow> (True, w'))
          else if status_code r = 409 then
            (case echo con [username] of Inl e \<Rightarrow> (False, w') | Inr u \<Rightarrow> (True, w'))
          else (False, w'))"

definition login_request :: "client \<Rightarrow> pyval \<Rightarrow> pyval \<Rightarrow> request" where
  "login_request c username password =
     \<lparr>req_verb = POST, req_url = base_url c @ ''/login'', req_item = None,
      req_headers = None, req_json = None,
      req_auth = Some (username, password), req_timeout = timeout c\<rparr>"

text \<open>
  \<^verbatim>\<open>login\<close> assigns \<^verbatim>\<open>self.token\<close> before the log line slices and prints it; when
  the slice raises or cannot be written, the handler returns \<^verbatim>\<open>False\<close> and the
  assignment stays. The line of the last branch interpolates \<^verbatim>\<open>response.text\<close>;
  written or not, the result is \<^verbatim>\<open>False\<close>.
\<close>

definition login ::
  "console \<Rightarrow> 'w transport \<Rightarrow> client \<Rightarrow> pyval \<Rightarrow> pyval \<Rightarrow> 'w \<Rightarrow> bool \<times> client \<times> 'w" where
  "login con send c username password w =
     (case send (login_request c username password) w of
        (Inl e, w') \<Rightarrow> (False, c, w')
      | (Inr r, w') \<Rightarrow>
          if status_code r = 200 then
            (case json r of
               Inl e \<Rightarrow> (False, c, w')
             | Inr data \<Rightarrow>
                 (case py_get data ''token'' PNone of
                    Inl e \<Rightarrow> (False, c, w')
                  | Inr t \<Rightarrow>
                      (case bindE (py_slice_to t 20) (\<lambda>shown. echo con [shown]) of
                         Inl e \<Rightarrow> (False, c\<lparr>token := t\<rparr>, w')
                       | Inr u \<Rightarrow> (True, c\<lparr>token := t\<rparr>, w'))))
          else (False, c, w'))"

text \<open>\<^verbatim>\<open>_get_headers\<close>.\<close>

definition get_headers :: "client \<Rightarrow> (string \<times> header) list" where
  "get_headers c =
     (let headers = [(''Content-Type'', Plain ''application/json'')]
      in if truthy (token c) then headers @ [(''Authorization'', Bearer (token c))]
         else headers)"

definition get_request :: "client \<Rightarrow> string \<Rightarrow> pyval option \<Rightarrow> request" where
  "get_request c path item =
     \<lparr>req_verb = GET, req_url = base_url c @ path, req_item = item,
      req_headers = Some (get_headers c), req_json = None, req_auth = None,
      req_timeout = timeout c\<rparr>"

definition get_tenants :: "'w transport \<Rightarrow> client \<Rightarrow> 'w \<Rightarrow> pyval \<times> 'w" where
  "get_tenants send c w =
     (case send (get_request c ''/api/tenant'' None) w of
        (Inl e, w') \<Rightarrow> (PNone, w')
      | (Inr r, w') \<Rightarrow>
          if status_code r = 200 then
            (case json r of
               Inl e \<Rightarrow> (PNone, w')
             | Inr tenants \<Rightarrow> (if is_list tenants then tenants else PList [tenants], w'))
          else (PNone, w'))"

text \<open>
  \<^verbatim>\<open>get_virtual_services\<close> logs \<^verbatim>\<open>len(services)\<close> before it returns: a
  \<^verbatim>\<open>results\<close> value without a length raises there, and the handler returns
  \<^verbatim>\<open>None\<close>.
\<close>

fun has_key :: "pyval \<Rightarrow> string \<Rightarrow> bool" where
  "has_key (PDict d) k = (map_of d k \<noteq> None)"
| "has_key v k = False"

definition get_virtual_services :: "'w transport \<Rightarrow> client \<Rightarrow> 'w \<Rightarrow> pyval \<times> 'w" where
  "get_virtual_services send c w =
     (case send (get_request c ''/api/virtualservice'' None) w of
        (Inl e, w') \<Rightarrow> (PNone, w')
      | (Inr r, w') \<Rightarrow>
          if status_code r = 200 then
            (case json r of
               Inl e \<Rightarrow> (PNone, w')
             | Inr data \<Rightarrow>
                 (case (if is_dict data \<and> has_key data ''results''
                        then py_get data ''results'' (PList [])
                        else Inr (if is_list data then data else PList [data])) of
                    Inl e \<Rightarrow> (PNone, w')
                  | Inr services \<Rightarrow>
                      (case py_len services of
                         Inl e \<Rightarrow> (PNone, w')
                       | Inr n \<Rightarrow> (services, w'))))
          else (PNone, w'))"

definition get_service_engines :: "'w transport \<Rightarrow> client \<Rightarrow> 'w \<Rightarrow> pyval \<times> 'w" where
  "get_service_engines send c w =
     (case send (get_request c ''/api/serviceengine'' None) w of
        (Inl e, w') \<Rightarrow> (PNone, w')
      | (Inr r, w') \<Rightarrow>
          if status_code r = 200 then
            (case json r of
               Inl e \<Rightarrow> (PNone, w')
             | Inr engines \<Rightarrow> (if is_list engines then engines else PList [engines], w'))
          else (PNone, w'))"

text \<open>
  A handler whose line interpolates a value besides the exception: when the line
  cannot be written the handler itself raises, and the exception leaves the method;
  otherwise the method returns \<^verbatim>\<open>None\<close>.
\<close>

definition handler_naming :: "console \<Rightarrow> pyval \<Rightarrow> exn + pyval" where
  "handler_naming con v = bindE (echo con [v]) (\<lambda>u. Inr PNone)"

text \<open>
  \<^verbatim>\<open>get_virtual_service_by_uuid\<close>: the line of the failure branch and the line of the
  handler interpolate the identifier.
\<close>

definition get_virtual_service_by_uuid ::
  "console \<Rightarrow> 'w transport \<Rightarrow> client \<Rightarrow> pyval \<Rightarrow> 'w \<Rightarrow> (exn + pyval) \<times> 'w" where
  "get_virtual_service_by_uuid con send c uuid w =
     (case send (get_request c ''/api/virtualservice/'' (Some uuid)) w of
        (Inl e, w') \<Rightarrow> (handler_naming con uuid, w')
      | (Inr r, w') \<Rightarrow>
          if status_code r = 200 then
            (case json r of Inl e \<Rightarrow> (handler_naming con uuid, w') | Inr v \<Rightarrow> (Inr v, w'))
          else
            (case echo con [uuid] of
               Inl e \<Rightarrow> (handler_naming con uuid, w')
             | Inr u \<Rightarrow> (Inr PNone, w')))"

text \<open>The scan of \<^verbatim>\<open>get_virtual_service_by_name\<close>: \<^verbatim>\<open>service.get('name') == name\<close>.\<close>

fun scan_by_name :: "pyval list \<Rightarrow> string \<Rightarrow> exn + pyval" where
  "scan_by_name [] name = Inr PNone"
| "scan_by_name (service # rest) name =
     (case py_get service ''name'' PNone of
        Inl e \<Rightarrow> Inl e
      | Inr n \<Rightarrow> if n = PStr name then Inr service else scan_by_name rest name)"

text \<open>
  \<^verbatim>\<open>get_virtual_service_by_name\<close>. Whether the scan finds an entry or not, the body
  prints a line that interpolates the name before it returns; the line of the
  handler interpolates the name too.
\<close>

definition get_virtual_service_by_name ::
  "console \<Rightarrow> 'w transport \<Rightarrow> client \<Rightarrow> string \<Rightarrow> 'w \<Rightarrow> (exn + pyval) \<times> 'w" where
  "get_virtual_service_by_name con send c name w =
     (case get_virtual_services send c w of
        (services, w') \<Rightarrow>
          (case bindE (if truthy services
                       then bindE (py_iter services) (\<lambda>entries. scan_by_name entries name)
                       else Inr PNone)
                  (\<lambda>found. bindE (echo con [PStr name]) (\<lambda>u. Inr found)) of
             Inl e \<Rightarrow> (handler_naming con (PStr name), w')
           | Inr found \<Rightarrow> (Inr found, w')))"

definition update_request :: "client \<Rightarrow> pyval \<Rightarrow> pyval \<Rightarrow> request" where
  "update_request c uuid payload =
     \<lparr>req_verb = PUT, req_url = base_url c @ ''/api/virtualservice/'', req_item = Some uuid,
      req_headers = Some (get_headers c), req_json = Some payload, req_auth = None,
      req_timeout = timeout c\<rparr>"

text \<open>
  \<^verbatim>\<open>update_virtual_service\<close>: the line of the success branch, printed before the body
  is parsed, the line of the failure branch and the line of the handler
  interpolate the identifier.
\<close>

definition update_virtual_service ::
  "console \<Rightarrow> 'w transport \<Rightarrow> client \<Rightarrow> pyval \<Rightarrow> pyval \<Rightarrow> 'w \<Rightarrow> (exn + pyval) \<times> 'w" where
  "update_virtual_service con send c uuid payload w =
     (case send (update_request c uuid payload) w of
        (Inl e, w') \<Rightarrow> (handler_naming con uuid, w')
      | (Inr r, w') \<Rightarrow>
          if status_code r = 200 then
            (case bindE (echo con [uuid]) (\<lambda>u. json r) of
               Inl e \<Rightarrow> (handler_naming con uuid, w')
             | Inr v \<Rightarrow> (Inr v, w'))
          else
            (case echo con [uuid] of
               Inl e \<Rightarrow> (handler_naming con uuid, w')
             | Inr u \<Rightarrow> (Inr PNone, w')))"

text \<open>
  The orchestrator takes any object with the six methods below. An interface is the
  six calls, each of which may raise; \<open>client_api\<close> is the interface of the
  \<^verbatim>\<open>APIClient\<close> above.
\<close>

record 'w api =
  api_get_tenants :: "'w \<Rightarrow> (exn + pyval) \<times> 'w"
  api_get_virtual_services :: "'w \<Rightarrow> (exn + pyval) \<times> 'w"
  api_get_service_engines :: "'w \<Rightarrow> (exn + pyval) \<times> 'w"
  api_get_virtual_service_by_name :: "string \<Rightarrow> 'w \<Rightarrow> (exn + pyval) \<times> 'w"
  api_update_virtual_service :: "pyval \<Rightarrow> pyval \<Rightarrow> 'w \<Rightarrow> (exn + pyval) \<times> 'w"
  api_get_virtual_service_by_uuid :: "pyval \<Rightarrow> 'w \<Rightarrow> (exn + pyval) \<times> 'w"

definition returns :: "'a \<times> 'w \<Rightarrow> (exn + 'a) \<times> 'w" where
  "returns r = (Inr (fst r), snd r)"

definition client_api :: "console \<Rightarrow> 'w transport \<Rightarrow> client \<Rightarrow> 'w api" where
  "client_api con send c =
     \<lparr>api_get_tenants = (\<lambda>w. returns (get_tenants send c w)),
      api_get_virtual_services = (\<lambda>w. returns (get_virtual_services send c w)),
      api_get_service_engines = (\<lambda>w. returns (get_service_engines send c w)),
      api_get_virtual_service_by_name =
        (\<lambda>name w. get_virtual_service_by_name con send c name w),
      api_update_virtual_service =
        (\<lambda>uuid payload w. update_virtual_service con send c uuid payload w),
      api_get_virtual_service_by_uuid =
        (\<lambda>uuid w. get_virtual_service_by_uuid con send c uuid w)\<rparr>"

section \<open>config\_loader.py\<close>


record config_loader =
  config_file :: string
  config :: pyval


definition get_api_config :: "config_loader \<Rightarrow> exn + pyval" where
  "get_api_config l = py_get (config l) ''api'' (PDict [])"

definition get_credentials :: "config_loader \<Rightarrow> exn + pyval" where
  "get_credentials l = py_get (config l) ''credentials'' (PDict [])"



definition get_timeout :: "config_loader \<Rightarrow> exn + pyval" where
  "get_timeout l =
     (case py_get (config l) ''api'' (PDict []) of
        Inl e \<Rightarrow> Inl e
      | Inr a \<Rightarrow> py_get a ''timeout'' (PInt 30))"


definition get_max_workers :: "config_loader \<Rightarrow> exn + pyval" where
  "get_max_workers l =
     (case py_get (config l) ''parallelism'' (PDict []) of
        Inl e \<Rightarrow> Inl e
      | Inr p \<Rightarrow> py_get p ''max_workers'' (PInt 4))"

section \<open>main.py: the setup of the framework\<close>

text \<open>\<^verbatim>\<open>v[k]\<close> with a string key.\<close>

fun py_item :: "pyval \<Rightarrow> string \<Rightarrow> exn + pyval" where
  "py_item (PDict d) k = dict_item d k"
| "py_item (PStr s) k = Inl (Raise TypeError ''string indices must be integers'')"
| "py_item (PList xs) k = Inl (Raise TypeError ''list indices must be integers or slices, not str'')"
| "py_item v k = Inl (Raise TypeError (quoted (type_name v) @ '' object is not subscriptable''))"

record test_framework =
  config_loader :: config_loader
  api_client :: "client option"

text \<open>
  The guard of \<^verbatim>\<open>setup\<close>, evaluated left to right as \<^verbatim>\<open>or\<close> does:
  \<^verbatim>\<open>not base_url or not credentials.get('username') or not credentials.get('password')\<close>.
\<close>

definition setting_missing :: "pyval \<Rightarrow> pyval \<Rightarrow> exn + bool" where
  "setting_missing url credentials =
     (if \<not> truthy url then Inr True
      else (case py_get credentials ''username'' PNone of
              Inl e \<Rightarrow> Inl e
            | Inr u \<Rightarrow>
                (if \<not> truthy u then Inr True
                 else (case py_get credentials ''password'' PNone of
                         Inl e \<Rightarrow> Inl e
                       | Inr p \<Rightarrow> Inr (\<not> truthy p)))))"

text \<open>
  \<^verbatim>\<open>TestFramework.setup\<close>, all of whose steps stand in one \<^verbatim>\<open>try\<close>: every
  exception gives \<^verbatim>\<open>False\<close>. The lines before the registration and before the login
  interpolate \<^verbatim>\<open>credentials['username']\<close>, and the last line holds the check mark.
  The result of \<^verbatim>\<open>register\<close> only selects a warning line.
\<close>

definition TestFramework_setup ::
  "console \<Rightarrow> 'w transport \<Rightarrow> test_framework \<Rightarrow> 'w \<Rightarrow> bool \<times> test_framework \<times> 'w" where
  "TestFramework_setup con send fw w =
     (case get_api_config (config_loader fw) of
        Inl e \<Rightarrow> (False, fw, w)
      | Inr api_config \<Rightarrow>
     (case get_credentials (config_loader fw) of
        Inl e \<Rightarrow> (False, fw, w)
      | Inr credentials \<Rightarrow>
     (case py_get api_config ''base_url'' PNone of
        Inl e \<Rightarrow> (False, fw, w)
      | Inr url \<Rightarrow>
     (case get_timeout (config_loader fw) of
        Inl e \<Rightarrow> (False, fw, w)
      | Inr t \<Rightarrow>
     (case setting_missing url credentials of
        Inl e \<Rightarrow> (False, fw, w)
      | Inr True \<Rightarrow> (False, fw, w)
      | Inr False \<Rightarrow>
     (case APIClient url t of
        Inl e \<Rightarrow> (False, fw, w)
      | Inr c \<Rightarrow>
     (case bindE (py_item credentials ''username'') (\<lambda>shown. echo con [shown]) of
        Inl e \<Rightarrow> (False, fw\<lparr>api_client := Some c\<rparr>, w)
      | Inr u \<Rightarrow>
     (case py_item credentials ''username'' of
        Inl e \<Rightarrow> (False, fw\<lparr>api_client := Some c\<rparr>, w)
      | Inr username \<Rightarrow>
     (case py_item credentials ''password'' of
        Inl e \<Rightarrow> (False, fw\<lparr>api_client := Some c\<rparr>, w)
      | Inr password \<Rightarrow>
     (case register con send c username password w of
        (registered, w1) \<Rightarrow>
     (case echo con [username] of
        Inl e \<Rightarrow> (False, fw\<lparr>api_client := Some c\<rparr>, w1)
      | Inr u \<Rightarrow>
     (case login con send c username password w1 of
        (logged_in, c', w2) \<Rightarrow>
          if \<not> logged_in then (False, fw\<lparr>api_client := Some c'\<rparr>, w2)
          else
            (case echo con [PStr check_mark] of
               Inl e \<Rightarrow> (False, fw\<lparr>api_client := Some c'\<rparr>, w2)
             | Inr u \<Rightarrow> (True, fw\<lparr>api_client := Some c'\<rparr>, w2))))))))))))))"

section \<open>test\_orchestrator.py\<close>

text \<open>
  The four slots of \<^verbatim>\<open>self.test_results\<close>, each \<^verbatim>\<open>None\<close> until its stage has
  stored a result dictionary; the keys are fixed at construction and keep this order.
\<close>

record test_results =
  pre_fetcher :: "pydict option"
  pre_validation :: "pydict option"
  task_trigger :: "pydict option"
  post_validation :: "pydict option"

text \<open>
  An orchestrator with the world its client talks to. \<open>stdout\<close> holds the lines that
  \<^verbatim>\<open>run_full_workflow\<close> and \<^verbatim>\<open>_print_summary\<close> have written, one entry for each
  call of \<^verbatim>\<open>print\<close>; the lines of the stages are not kept, but each of their calls
  of \<^verbatim>\<open>print\<close> that interpolates a value or holds a mark is made, since it may raise.
\<close>

record 'w orchestrator =
  target_vs_name :: string
  test_results :: test_results
  stdout :: "string list"
  world :: 'w

definition TestOrchestrator :: "string \<Rightarrow> 'w \<Rightarrow> 'w orchestrator" where
  "TestOrchestrator name w =
     \<lparr>target_vs_name = name,
      test_results = \<lparr>pre_fetcher = None, pre_validation = None, task_trigger = None,
                      post_validation = None\<rparr>,
      stdout = [], world = w\<rparr>"

text \<open>
  The handler every stage ends with: \<^verbatim>\<open>{'status': 'failed', 'error': str(e)}\<close>. Its
  line interpolates the exception only.
\<close>

definition failed_result :: "exn \<Rightarrow> pydict" where
  "failed_result e = [(''status'', PStr ''failed''), (''error'', PStr (str_exn e))]"

definition caught :: "exn + pydict \<Rightarrow> pydict" where
  "caught r = (case r of Inl e \<Rightarrow> failed_result e | Inr result \<Rightarrow> result)"

text \<open>\<^verbatim>\<open>len(v) if v else 0\<close>.\<close>

definition count_of :: "pyval \<Rightarrow> exn + pyval" where
  "count_of v =
     (if truthy v then (case py_len v of Inl e \<Rightarrow> Inl e | Inr n \<Rightarrow> Inr (PInt (int n)))
      else Inr (PInt 0))"

text \<open>
  The listing loop of stage 1 prints, for every entry, one line that interpolates
  \<^verbatim>\<open>vs.get('name')\<close>, \<^verbatim>\<open>vs.get('uuid', 'N/A')\<close> and \<^verbatim>\<open>vs.get('enabled')\<close>.
\<close>

fun show_services :: "console \<Rightarrow> pyval list \<Rightarrow> exn + unit" where
  "show_services con [] = Inr ()"
| "show_services con (vs # rest) =
     (case py_get vs ''name'' PNone of
        Inl e \<Rightarrow> Inl e
      | Inr n \<Rightarrow>
          (case py_get vs ''uuid'' (PStr ''N/A'') of
             Inl e \<Rightarrow> Inl e
           | Inr u \<Rightarrow>
               (case py_get vs ''enabled'' PNone of
                  Inl e \<Rightarrow> Inl e
                | Inr en \<Rightarrow>
                    (case echo con [n, u, en] of
                       Inl e \<Rightarrow> Inl e
                     | Inr done \<Rightarrow> show_services con rest))))"

definition show_listing :: "console \<Rightarrow> pyval \<Rightarrow> exn + unit" where
  "show_listing con virtual_services =
     (if truthy virtual_services then
        (case py_iter virtual_services of
           Inl e \<Rightarrow> Inl e
         | Inr entries \<Rightarrow> show_services con entries)
      else Inr ())"

text \<open>
  What stage 1 does with the three fetched values, after the fetches: the counts, the
  lines of the counts (numbers), the listing loop.
\<close>

definition pre_fetcher_result :: "console \<Rightarrow> pyval \<Rightarrow> pyval \<Rightarrow> pyval \<Rightarrow> exn + pydict" where
  "pre_fetcher_result con tenants virtual_services service_engines =
     (case count_of tenants of
        Inl e \<Rightarrow> Inl e
      | Inr tc \<Rightarrow>
     (case count_of virtual_services of
        Inl e \<Rightarrow> Inl e
      | Inr vc \<Rightarrow>
     (case count_of service_engines of
        Inl e \<Rightarrow> Inl e
      | Inr sc \<Rightarrow>
     (case show_listing con virtual_services of
        Inl e \<Rightarrow> Inl e
      | Inr u \<Rightarrow>
          Inr [(''status'', PStr ''success''),
               (''tenants_count'', tc),
               (''virtual_services_count'', vc),
               (''service_engines_count'', sc),
               (''tenants'', tenants),
               (''virtual_services'', virtual_services),
               (''service_engines'', service_engines)]))))"

text \<open>The body of the \<^verbatim>\<open>try\<close> of stage 1.\<close>

definition pre_fetcher_try :: "console \<Rightarrow> 'w api \<Rightarrow> 'w \<Rightarrow> (exn + pydict) \<times> 'w" where
  "pre_fetcher_try con api w =
     (case api_get_tenants api w of
        (Inl e, w1) \<Rightarrow> (Inl e, w1)
      | (Inr tenants, w1) \<Rightarrow>
     (case api_get_virtual_services api w1 of
        (Inl e, w2) \<Rightarrow> (Inl e, w2)
      | (Inr virtual_services, w2) \<Rightarrow>
     (case api_get_service_engines api w2 of
        (Inl e, w3) \<Rightarrow> (Inl e, w3)
      | (Inr service_engines, w3) \<Rightarrow>
          (pre_fetcher_result con tenants virtual_services service_engines, w3))))"

text \<open>
  Stage 1. The lines before its \<^verbatim>\<open>try\<close> are ASCII, so the stage always returns a
  result.
\<close>

definition stage_1_pre_fetcher ::
  "console \<Rightarrow> 'w api \<Rightarrow> 'w orchestrator \<Rightarrow> pydict \<times> 'w orchestrator" where
  "stage_1_pre_fetcher con api s =
     (case pre_fetcher_try con api (world s) of
        (r, w') \<Rightarrow>
          (caught r,
           s\<lparr>test_results := (test_results s)\<lparr>pre_fetcher := Some (caught r)\<rparr>, world := w'\<rparr>))"

text \<open>
  What stage 2 does with the looked-up service. The line of the absent service
  interpolates the target name; the lines of the found service interpolate its name,
  its identifier and its flag, one line each; the line of a passed validation holds
  the check mark.
\<close>

definition pre_validation_result :: "console \<Rightarrow> string \<Rightarrow> pyval \<Rightarrow> exn + pydict" where
  "pre_validation_result con name target_vs =
     (if \<not> truthy target_vs then
        bindE (echo con [PStr name]) (\<lambda>u.
        Inr [(''status'', PStr ''failed''),
             (''error'', PStr (''Virtual service '' @ quoted name @ '' not found''))])
      else
        bindE (py_get target_vs ''enabled'' (PBool False)) (\<lambda>is_enabled.
        bindE (py_get target_vs ''uuid'' PNone) (\<lambda>uuid.
        bindE (py_get target_vs ''name'' PNone) (\<lambda>shown.
        bindE (echo con [shown]) (\<lambda>u.
        bindE (echo con [uuid]) (\<lambda>u.
        bindE (echo con [is_enabled]) (\<lambda>u.
          if \<not> truthy is_enabled then
            Inr [(''status'', PStr ''failed''),
                 (''error'', PStr ''Virtual service is not enabled''),
                 (''virtual_service'', target_vs)]
          else
            bindE (echo con [PStr check_mark]) (\<lambda>u.
            Inr [(''status'', PStr ''success''),
                 (''virtual_service'', target_vs),
                 (''uuid'', uuid),
                 (''enabled'', is_enabled)]))))))))"

definition pre_validation_try ::
  "console \<Rightarrow> 'w api \<Rightarrow> string \<Rightarrow> 'w \<Rightarrow> (exn + pydict) \<times> 'w" where
  "pre_validation_try con api name w =
     (case api_get_virtual_service_by_name api name w of
        (Inl e, w') \<Rightarrow> (Inl e, w')
      | (Inr target_vs, w') \<Rightarrow> (pre_validation_result con name target_vs, w'))"

text \<open>
  Stage 2. The line before its \<^verbatim>\<open>try\<close> interpolates the target name: when it
  cannot be written the exception leaves the stage and nothing is stored.
\<close>

definition stage_2_pre_validation ::
  "console \<Rightarrow> 'w api \<Rightarrow> 'w orchestrator \<Rightarrow> (exn + pydict) \<times> 'w orchestrator" where
  "stage_2_pre_validation con api s =
     (case echo con [PStr (target_vs_name s)] of
        Inl e \<Rightarrow> (Inl e, s)
      | Inr u \<Rightarrow>
          (case pre_validation_try con api (target_vs_name s) (world s) of
             (r, w') \<Rightarrow>
               (Inr (caught r),
                s\<lparr>test_results := (test_results s)\<lparr>pre_validation := Some (caught r)\<rparr>,
                  world := w'\<rparr>)))"

text \<open>
  Stages 3 and 4 read the answer the same way: absent is a failure, otherwise
  \<^verbatim>\<open>response.get('enabled', True)\<close> decides. A line interpolates the flag, and the
  line of success holds the check mark. The line before the \<^verbatim>\<open>try\<close> interpolates
  the identifier.
\<close>

definition task_trigger_result :: "console \<Rightarrow> pyval \<Rightarrow> exn + pydict" where
  "task_trigger_result con response =
     (if response = PNone then
        Inr [(''status'', PStr ''failed''), (''error'', PStr ''Failed to update virtual service'')]
      else
        bindE (py_get response ''enabled'' (PBool True)) (\<lambda>is_enabled.
        bindE (echo con [is_enabled]) (\<lambda>u.
          if truthy is_enabled then
            Inr [(''status'', PStr ''failed''),
                 (''error'', PStr ''Virtual service was not disabled''),
                 (''response'', response)]
          else
            bindE (echo con [PStr check_mark]) (\<lambda>u.
            Inr [(''status'', PStr ''success''),
                 (''response'', response),
                 (''enabled'', is_enabled)]))))"

definition task_trigger_try :: "console \<Rightarrow> 'w api \<Rightarrow> pyval \<Rightarrow> 'w \<Rightarrow> (exn + pydict) \<times> 'w" where
  "task_trigger_try con api uuid w =
     (case api_update_virtual_service api uuid (PDict [(''enabled'', PBool False)]) w of
        (Inl e, w') \<Rightarrow> (Inl e, w')
      | (Inr response, w') \<Rightarrow> (task_trigger_result con response, w'))"

definition stage_3_task_trigger ::
  "console \<Rightarrow> 'w api \<Rightarrow> pyval \<Rightarrow> 'w orchestrator \<Rightarrow> (exn + pydict) \<times> 'w orchestrator" where
  "stage_3_task_trigger con api uuid s =
     (case echo con [uuid] of
        Inl e \<Rightarrow> (Inl e, s)
      | Inr u \<Rightarrow>
          (case task_trigger_try con api uuid (world s) of
             (r, w') \<Rightarrow>
               (Inr (caught r),
                s\<lparr>test_results := (test_results s)\<lparr>task_trigger := Some (caught r)\<rparr>,
                  world := w'\<rparr>)))"

definition post_validation_result :: "console \<Rightarrow> pyval \<Rightarrow> exn + pydict" where
  "post_validation_result con response =
     (if response = PNone then
        Inr [(''status'', PStr ''failed''), (''error'', PStr ''Failed to fetch virtual service'')]
      else
        bindE (py_get response ''enabled'' (PBool True)) (\<lambda>is_enabled.
        bindE (echo con [is_enabled]) (\<lambda>u.
          if truthy is_enabled then
            Inr [(''status'', PStr ''failed''),
                 (''error'', PStr ''Virtual service is still enabled''),
                 (''response'', response)]
          else
            bindE (echo con [PStr check_mark]) (\<lambda>u.
            Inr [(''status'', PStr ''success''),
                 (''response'', response),
                 (''enabled'', is_enabled)]))))"

definition post_validation_try ::
  "console \<Rightarrow> 'w api \<Rightarrow> pyval \<Rightarrow> 'w \<Rightarrow> (exn + pydict) \<times> 'w" where
  "post_validation_try con api uuid w =
     (case api_get_virtual_service_by_uuid api uuid w of
        (Inl e, w') \<Rightarrow> (Inl e, w')
      | (Inr response, w') \<Rightarrow> (post_validation_result con response, w'))"

definition stage_4_post_validation ::
  "console \<Rightarrow> 'w api \<Rightarrow> pyval \<Rightarrow> 'w orchestrator \<Rightarrow> (exn + pydict) \<times> 'w orchestrator" where
  "stage_4_post_validation con api uuid s =
     (case echo con [uuid] of
        Inl e \<Rightarrow> (Inl e, s)
      | Inr u \<Rightarrow>
          (case post_validation_try con api uuid (world s) of
             (r, w') \<Rightarrow>
               (Inr (caught r),
                s\<lparr>test_results := (test_results s)\<lparr>post_validation := Some (caught r)\<rparr>,
                  world := w'\<rparr>)))"

text \<open>
  \<^verbatim>\<open>str.upper\<close> on ASCII letters (the stage names and statuses are ASCII); a value
  that is not a string has no such method.
\<close>

definition upper_char :: "char \<Rightarrow> char" where
  "upper_char c =
     (let n = (of_char c :: nat) in if 97 \<le> n \<and> n \<le> 122 then char_of (n - 32) else c)"

fun py_upper :: "pyval \<Rightarrow> exn + string" where
  "py_upper (PStr s) = Inr (map upper_char s)"
| "py_upper v = Inl (no_attribute v ''upper'')"

text \<open>\<^verbatim>\<open>result.get('status', 'unknown') if result else 'not-executed'\<close>.\<close>

definition stage_status :: "pydict option \<Rightarrow> pyval" where
  "stage_status result =
     (case result of
        None \<Rightarrow> PStr ''not-executed''
      | Some d \<Rightarrow> if d \<noteq> [] then dict_get d ''status'' (PStr ''unknown'') else PStr ''not-executed'')"

definition status_symbol :: "pyval \<Rightarrow> string" where
  "status_symbol status =
     (if status = PStr ''success'' then check_mark
      else if status = PStr ''failed'' then cross_mark
      else circle_mark)"

text \<open>
  One line of the summary: the mark, the stage and the status in capitals. The line
  is formatted, which raises when the status has no \<^verbatim>\<open>upper\<close>, and then printed.
\<close>

definition summary_line :: "console \<Rightarrow> string \<times> pydict option \<Rightarrow> exn + string" where
  "summary_line con item =
     (let status = stage_status (snd item) in
      bindE (py_upper status) (\<lambda>shown.
      bindE (echo con [PStr (status_symbol status), PStr shown]) (\<lambda>u.
        Inr (status_symbol status @ '' '' @ map upper_char (fst item) @ '': '' @ shown))))"

text \<open>The loop over the stages: the lines written, and the exception that ended it, if any.\<close>

fun summary_lines :: "console \<Rightarrow> (string \<times> pydict option) list \<Rightarrow> string list \<times> exn option" where
  "summary_lines con [] = ([], None)"
| "summary_lines con (item # rest) =
     (case summary_line con item of
        Inl e \<Rightarrow> ([], Some e)
      | Inr l \<Rightarrow> (case summary_lines con rest of (ls, x) \<Rightarrow> (l # ls, x)))"

text \<open>\<^verbatim>\<open>self.test_results.items()\<close>.\<close>

definition items :: "test_results \<Rightarrow> (string \<times> pydict option) list" where
  "items r =
     [(''pre_fetcher'', pre_fetcher r), (''pre_validation'', pre_validation r),
      (''task_trigger'', task_trigger r), (''post_validation'', post_validation r)]"

text \<open>
  \<^verbatim>\<open>all(r and r.get('status') == 'success' for r in values if r is not None)\<close>
\<close>

definition all_success :: "test_results \<Rightarrow> bool" where
  "all_success r =
     list_all (\<lambda>d. d \<noteq> [] \<and> dict_get d ''status'' PNone = PStr ''success'')
       (List.map_filter (\<lambda>x. x) (map snd (items r)))"

definition overall_status :: "test_results \<Rightarrow> string" where
  "overall_status r = (if all_success r then ''PASSED'' else ''FAILED'')"

definition rule :: "string" where
  "rule = replicate 70 CHR ''#''"

text \<open>
  \<^verbatim>\<open>_print_summary\<close>: the lines it writes, and the exception that leaves it, if a
  line of the loop raises.
\<close>

definition print_summary :: "console \<Rightarrow> test_results \<Rightarrow> string list \<times> exn option" where
  "print_summary con r =
     (case summary_lines con (items r) of
        (ls, Some e) \<Rightarrow> ([CHR 0x0A # rule, ''TEST EXECUTION SUMMARY'', rule] @ ls, Some e)
      | (ls, None) \<Rightarrow>
          ([CHR 0x0A # rule, ''TEST EXECUTION SUMMARY'', rule] @ ls @
           [CHR 0x0A # ''OVERALL TEST RESULT: '' @ overall_status r, rule], None))"

definition workflow_banner :: "string list" where
  "workflow_banner = [CHR 0x0A # rule, ''STARTING FULL TEST WORKFLOW'', rule]"

definition say :: "string list \<Rightarrow> 'w orchestrator \<Rightarrow> 'w orchestrator" where
  "say ls s = s\<lparr>stdout := stdout s @ ls\<rparr>"

text \<open>
  \<^verbatim>\<open>run_full_workflow\<close>: the returned \<^verbatim>\<open>self.test_results\<close>, or the exception that
  leaves the method, with the orchestrator as the call left it.
\<close>

definition run_full_workflow ::
  "console \<Rightarrow> 'w api \<Rightarrow> 'w orchestrator \<Rightarrow> (exn + test_results) \<times> 'w orchestrator" where
  "run_full_workflow con api s =
     (case stage_1_pre_fetcher con api (say workflow_banner s) of
        (fetched, s1) \<Rightarrow>
     (case stage_2_pre_validation con api s1 of
        (Inl e, s2) \<Rightarrow> (Inl e, s2)
      | (Inr validation, s2) \<Rightarrow>
     (case dict_item validation ''status'' of
        Inl e \<Rightarrow> (Inl e, s2)
      | Inr status \<Rightarrow>
          if status \<noteq> PStr ''success'' then
            (let s' = say [CHR 0x0A # ''[WORKFLOW] Pre-validation failed. Stopping workflow.''] s2
             in (Inr (test_results s'), s'))
          else
            (let uuid = dict_get validation ''uuid'' PNone in
             case stage_3_task_trigger con api uuid s2 of
               (Inl e, s3) \<Rightarrow> (Inl e, s3)
             | (Inr triggered, s3) \<Rightarrow>
            (case stage_4_post_validation con api uuid s3 of
               (Inl e, s4) \<Rightarrow> (Inl e, s4)
             | (Inr verified, s4) \<Rightarrow>
            (case print_summary con (test_results s4) of
               (ls, Some e) \<Rightarrow> (Inl e, say ls s4)
             | (ls, None) \<Rightarrow> (Inr (test_results (say ls s4)), say ls s4)))))))"

section \<open>main.py: batch execution\<close>

text \<open>
  The four batch methods call \<^verbatim>\<open>self.run_test_case\<close> on every test case. Here the
  call is any function from a test case and the world it runs in to its outcome
  (the dictionary it returns, or the exception that leaves it) and the world it
  leaves.
\<close>

type_synonym 'w test_run = "pyval \<Rightarrow> 'w \<Rightarrow> (exn + pyval) \<times> 'w"

text \<open>The loop of \<^verbatim>\<open>run_tests_sequentially\<close>: an exception of a call ends it.\<close>

fun run_each :: "'w test_run \<Rightarrow> pyval list \<Rightarrow> 'w \<Rightarrow> (exn + pyval list) \<times> 'w" where
  "run_each run [] w = (Inr [], w)"
| "run_each run (test_case # rest) w =
     (case run test_case w of
        (Inl e, w') \<Rightarrow> (Inl e, w')
      | (Inr result, w') \<Rightarrow>
          (case run_each run rest w' of
             (Inl e, w'') \<Rightarrow> (Inl e, w'')
           | (Inr results, w'') \<Rightarrow> (Inr (result # results), w'')))"

text \<open>\<^verbatim>\<open>run_tests_sequentially\<close>: the first line interpolates \<^verbatim>\<open>len(test_cases)\<close>.\<close>

definition run_tests_sequentially ::
  "'w test_run \<Rightarrow> pyval \<Rightarrow> 'w \<Rightarrow> (exn + pyval list) \<times> 'w" where
  "run_tests_sequentially run test_cases w =
     (case bindE (py_len test_cases) (\<lambda>n. py_iter test_cases) of
        Inl e \<Rightarrow> (Inl e, w)
      | Inr cases \<Rightarrow> run_each run cases w)"

text \<open>
  The concurrent strategies submit one call for each test case, in the order of the
  list, and let the calls run at the same time. Of such a run two things are kept.
  What the call for a test case observes of the service and the client while the
  others run is a world of its own; the calls are submitted with these worlds. And
  the calls finish in some order, given by the positions of the calls in the order
  in which they finish.

  Modelled from the documentation of \<^verbatim>\<open>concurrent.futures\<close>: a future holds the
  outcome of its call once the call has finished; \<^verbatim>\<open>result()\<close> waits for that,
  then returns what the call returned or raises what it raised; leaving the
  \<^verbatim>\<open>with\<close> block waits for every submitted call.
\<close>

type_synonym futures = "nat \<Rightarrow> (exn + pyval) option"

text \<open>The futures once the calls named in \<open>finished\<close> have finished, in that order.\<close>

definition finish :: "(exn + pyval) list \<Rightarrow> nat list \<Rightarrow> futures" where
  "finish outs finished =
     fold (\<lambda>i held. if i < length outs then held(i \<mapsto> outs ! i) else held)
       finished (\<lambda>i. None)"

definition all_finished :: "futures \<Rightarrow> nat \<Rightarrow> bool" where
  "all_finished held n = list_all (\<lambda>i. held i \<noteq> None) [0..<n]"

text \<open>
  The loop \<^verbatim>\<open>for future in futures: results.append(future.result())\<close>, over the
  futures in the order of their creation: \<open>None\<close> when it waits for ever.
\<close>

fun read_results :: "futures \<Rightarrow> nat list \<Rightarrow> (exn + pyval list) option" where
  "read_results held [] = Some (Inr [])"
| "read_results held (i # rest) =
     (case held i of
        None \<Rightarrow> None
      | Some (Inl e) \<Rightarrow> Some (Inl e)
      | Some (Inr result) \<Rightarrow>
          (case read_results held rest of
             None \<Rightarrow> None
           | Some (Inl e) \<Rightarrow> Some (Inl e)
           | Some (Inr results) \<Rightarrow> Some (Inr (result # results))))"

text \<open>
  The \<^verbatim>\<open>with\<close> block of the two pool strategies: the loop, then the wait for every
  submitted call.
\<close>

definition pool_results :: "(exn + pyval) list \<Rightarrow> nat list \<Rightarrow> (exn + pyval list) option" where
  "pool_results outs finished =
     (let held = finish outs finished in
      case read_results held [0..<length outs] of
        None \<Rightarrow> None
      | Some r \<Rightarrow> if all_finished held (length outs) then Some r else None)"

text \<open>
  The calls submitted for the test cases, each with its position and its world, and
  their outcomes, in the order of submission.
\<close>

definition submitted :: "pyval list \<Rightarrow> (nat \<Rightarrow> 'w) \<Rightarrow> (nat \<times> pyval \<times> 'w) list" where
  "submitted cases worlds = map (\<lambda>i. (i, cases ! i, worlds i)) [0..<length cases]"

definition outcomes :: "'w test_run \<Rightarrow> pyval list \<Rightarrow> (nat \<Rightarrow> 'w) \<Rightarrow> (exn + pyval) list" where
  "outcomes run cases worlds =
     map (\<lambda>(i, test_case, w). fst (run test_case w)) (submitted cases worlds)"

text \<open>
  \<^verbatim>\<open>run_tests_in_parallel_threading\<close>. The first line interpolates the number of
  test cases and \<^verbatim>\<open>max_workers\<close>. What constructing a pool of that size raises, if
  anything, is a parameter.
\<close>

definition run_tests_in_parallel_threading ::
  "console \<Rightarrow> (pyval \<Rightarrow> exn option) \<Rightarrow> config_loader \<Rightarrow> 'w test_run \<Rightarrow> pyval \<Rightarrow>
     (nat \<Rightarrow> 'w) \<Rightarrow> nat list \<Rightarrow> (exn + pyval list) option" where
  "run_tests_in_parallel_threading con pool l run test_cases worlds finished =
     (case bindE (get_max_workers l) (\<lambda>max_workers.
           bindE (py_len test_cases) (\<lambda>n.
           bindE (echo con [max_workers]) (\<lambda>u.
           bindE (case pool max_workers of Some e \<Rightarrow> Inl e | None \<Rightarrow> Inr ()) (\<lambda>u.
             py_iter test_cases)))) of
        Inl e \<Rightarrow> Some (Inl e)
      | Inr cases \<Rightarrow>
          pool_results (outcomes run cases worlds) finished)"

text \<open>
  \<^verbatim>\<open>run_tests_in_parallel_multiprocessing\<close>. A call and its outcome cross the
  boundary of a process: \<open>carried\<close> gives, for the position of a call, the exception
  that crossing raises, if any, which the future then holds.
\<close>

definition shipped :: "(nat \<Rightarrow> exn option) \<Rightarrow> (exn + pyval) list \<Rightarrow> (exn + pyval) list" where
  "shipped carried outs =
     map (\<lambda>(i, out). case carried i of Some e \<Rightarrow> Inl e | None \<Rightarrow> out) (zip [0..<length outs] outs)"

definition run_tests_in_parallel_multiprocessing ::
  "console \<Rightarrow> (pyval \<Rightarrow> exn option) \<Rightarrow> (nat \<Rightarrow> exn option) \<Rightarrow> config_loader \<Rightarrow> 'w test_run \<Rightarrow>
     pyval \<Rightarrow> (nat \<Rightarrow> 'w) \<Rightarrow> nat list \<Rightarrow> (exn + pyval list) option" where
  "run_tests_in_parallel_multiprocessing con pool carried l run test_cases worlds finished =
     (case bindE (get_max_workers l) (\<lambda>max_workers.
           bindE (py_len test_cases) (\<lambda>n.
           bindE (echo con [max_workers]) (\<lambda>u.
           bindE (case pool max_workers of Some e \<Rightarrow> Inl e | None \<Rightarrow> Inr ()) (\<lambda>u.
             py_iter test_cases)))) of
        Inl e \<Rightarrow> Some (Inl e)
      | Inr cases \<Rightarrow>
          pool_results (shipped carried (outcomes run cases worlds)) finished)"

text \<open>
  Modelled from the documentation of \<^verbatim>\<open>asyncio.gather\<close>: when every awaitable
  returns, the result is the list of their values in the order of the awaitables;
  the first exception raised, in the order in which the calls finish, goes to the
  caller at once.
\<close>

definition gather :: "(exn + pyval) list \<Rightarrow> nat list \<Rightarrow> (exn + pyval list) option" where
  "gather outs finished =
     (let held = finish outs finished in
      case List.map_filter (\<lambda>i. case held i of Some (Inl e) \<Rightarrow> Some e | _ \<Rightarrow> None) finished of
        e # es \<Rightarrow> Some (Inl e)
      | [] \<Rightarrow> read_results held [0..<length outs])"

text \<open>
  \<^verbatim>\<open>run_tests_async\<close>: the first line interpolates \<^verbatim>\<open>len(test_cases)\<close>; each call
  runs in a worker thread, and \<^verbatim>\<open>asyncio.run\<close> waits for the worker threads
  when it closes the loop.
\<close>

definition run_tests_async ::
  "'w test_run \<Rightarrow> pyval \<Rightarrow> (nat \<Rightarrow> 'w) \<Rightarrow> nat list \<Rightarrow> (exn + pyval list) option" where
  "run_tests_async run test_cases worlds finished =
     (case bindE (py_len test_cases) (\<lambda>n. py_iter test_cases) of
        Inl e \<Rightarrow> Some (Inl e)
      | Inr cases \<Rightarrow>
          (case gather (outcomes run cases worlds) finished of
             None \<Rightarrow> None
           | Some r \<Rightarrow>
               if all_finished (finish (outcomes run cases worlds) finished) (length cases)
               then Some r
               else None))"

section \<open>Test doubles\<close>

text \<open>
  Concrete consoles and remote services on which the theorems below are
  instantiated. The wide console writes every value. The narrow console is an
  ASCII one: it writes what every console writes and nothing else, so it refuses
  the marks. A fixed reply answers every request with status 200 and one body. A
  logged service keeps the requests it has received and answers from them.
\<close>

definition wide_console :: console where
  "wide_console = \<lparr>renders = (\<lambda>v. True), refusal = (\<lambda>v. [])\<rparr>"

definition narrow_console :: console where
  "narrow_console =
     \<lparr>renders = (\<lambda>v. False), refusal = (\<lambda>v. ''ordinal not in range(128)'')\<rparr>"

definition pawel :: pyval where
  "pawel = PStr (''pawe'' @ [CHR 0xC5, CHR 0x82])"

definition fixed_reply :: "pyval \<Rightarrow> unit transport" where
  "fixed_reply body req w = (Inr \<lparr>status_code = 200, json = Inr body\<rparr>, w)"

definition logged :: "(request list \<Rightarrow> request \<Rightarrow> exn + response) \<Rightarrow> request list transport" where
  "logged answer req seen = (answer seen req, seen @ [req])"



definition fresh_client :: client where
  "fresh_client = \<lparr>base_url = ''http://lb'', timeout = PInt 30, token = PNone\<rparr>"


definition demo_client :: client where
  "demo_client = \<lparr>base_url = ''http://lb'', timeout = PInt 30, token = PStr ''t0k3n''\<rparr>"

definition demo_service :: pyval where
  "demo_service = PDict [(''name'', PStr ''vs-1''), (''uuid'', PStr ''u-1''), (''enabled'', PBool True)]"

definition no_json :: "exn + pyval" where
  "no_json = Inl (Raise JSONDecodeError ''Expecting value'')"

text \<open>
  A service that lists and shows one enabled virtual service, hands out a token at
  login, and answers every update and every registration with status 500.
\<close>

definition refusing_service :: "request list \<Rightarrow> request \<Rightarrow> exn + response" where
  "refusing_service seen req =
     (case req_verb req of
        PUT \<Rightarrow> Inr \<lparr>status_code = 500, json = no_json\<rparr>
      | GET \<Rightarrow>
          (if req_item req = None
           then Inr \<lparr>status_code = 200, json = Inr (PDict [(''results'', PList [demo_service])])\<rparr>
           else Inr \<lparr>status_code = 200, json = Inr demo_service\<rparr>)
      | POST \<Rightarrow>
          (if req_auth req = None then Inr \<lparr>status_code = 500, json = no_json\<rparr>
           else Inr \<lparr>status_code = 200, json = Inr (PDict [(''token'', PStr ''t0k3n'')])\<rparr>))"


definition demo_config :: pyval where
  "demo_config =
     PDict [(''api'', PDict [(''base_url'', PStr ''http://lb/'')]),
            (''credentials'', PDict [(''username'', PStr ''admin''), (''password'', PStr ''pw'')])]"

text \<open>
  A call that returns the name of its test case as its outcome and counts itself
  in the world, and three test cases for it.
\<close>

definition naming_run :: "nat test_run" where
  "naming_run test_case w =
     (case py_get test_case ''name'' (PStr ''unknown'') of
        Inl e \<Rightarrow> (Inl e, w)
      | Inr n \<Rightarrow> (Inr (PDict [(''test_name'', n), (''seen'', PInt (int w))]), Suc w))"

definition three_cases :: pyval where
  "three_cases =
     PList [PDict [(''name'', PStr ''a'')], PDict [(''name'', PStr ''b'')],
            PDict [(''name'', PStr ''c'')]]"

definition no_pool_error :: "pyval \<Rightarrow> exn option" where
  "no_pool_error max_workers = None"

definition nothing_carried :: "nat \<Rightarrow> exn option" where
  "nothing_carried i = None"

definition four_workers :: config_loader where
  "four_workers = \<lparr>config_file = ''test_config.yaml'', config = PDict []\<rparr>"

definition apart :: "nat \<Rightarrow> nat" where
  "apart i = 10 * i"

section \<open>Properties\<close>





text \<open>
  Results in the order of submission: the values of the outcomes in the order of
  the list, or the first exception in that order.
\<close>

fun in_order :: "(exn + pyval) list \<Rightarrow> exn + pyval list" where
  "in_order [] = Inr []"
| "in_order (Inl e # rest) = Inl e"
| "in_order (Inr result # rest) =
     (case in_order rest of Inl e \<Rightarrow> Inl e | Inr results \<Rightarrow> Inr (result # results))"

text \<open>The world in which the sequential loop makes its call at a position.\<close>

definition seq_worlds :: "'w test_run \<Rightarrow> pyval list \<Rightarrow> 'w \<Rightarrow> nat \<Rightarrow> 'w" where
  "seq_worlds run cases w i = fold (\<lambda>test_case w'. snd (run test_case w')) (take i cases) w"

text \<open>A stage result carries one of the two statuses.\<close>

definition has_status :: "pydict \<Rightarrow> bool" where
  "has_status d =
     (map_of d ''status'' = Some (PStr ''success'') \<or> map_of d ''status'' = Some (PStr ''failed''))"

subsection \<open>The API client\<close>

text \<open>
  Claim C3. On a listing response with status 200 and a JSON body,
  \<^verbatim>\<open>get_virtual_services\<close> returns the inner list when the body is an object whose
  \<^verbatim>\<open>results\<close> key holds a list, returns a list body as it is, and wraps any other
  body without a \<^verbatim>\<open>results\<close> key (a bare object) into a one-element list;
  \<^verbatim>\<open>get_tenants\<close> and \<^verbatim>\<open>get_service_engines\<close> return a list body unchanged and
  wrap a body that is not a list into a one-element list.
\<close>

theorem listing_normalisation:
  fixes send :: "'w transport"
  assumes "status_code r = 200" and "json r = Inr body"
  shows
    "(send (get_request c ''/api/virtualservice'' None) w = (Inr r, w') \<longrightarrow>
        (body = PDict d \<and> map_of d ''results'' = Some (PList xs) \<longrightarrow>
           get_virtual_services send c w = (PList xs, w')) \<and>
        (is_list body \<longrightarrow> get_virtual_services send c w = (body, w')) \<and>
        (\<not> is_list body \<and> \<not> has_key body ''results'' \<longrightarrow>
           get_virtual_services send c w = (PList [body], w'))) \<and>
     (send (get_request c ''/api/tenant'' None) w = (Inr r, w') \<longrightarrow>
        (is_list body \<longrightarrow> get_tenants send c w = (body, w')) \<and>
        (\<not> is_list body \<longrightarrow> get_tenants send c w = (PList [body], w'))) \<and>
     (send (get_request c ''/api/serviceengine'' None) w = (Inr r, w') \<longrightarrow>
        (is_list body \<longrightarrow> get_service_engines send c w = (body, w')) \<and>
        (\<not> is_list body \<longrightarrow> get_service_engines send c w = (PList [body], w')))"
proof -
  have vs: "get_virtual_services send c w = (PList xs, w')"
    if "send (get_request c ''/api/virtualservice'' None) w = (Inr r, w')"
      and "body = PDict d" and "map_of d ''results'' = Some (PList xs)"
    using that assms by (simp add: get_virtual_services_def dict_get_def)
  have vl: "get_virtual_services send c w = (body, w')"
    if "send (get_request c ''/api/virtualservice'' None) w = (Inr r, w')" and "is_list body"
    using that assms by (cases body) (simp_all add: get_virtual_services_def)
  have vb: "get_virtual_services send c w = (PList [body], w')"
    if "send (get_request c ''/api/virtualservice'' None) w = (Inr r, w')"
      and "\<not> is_list body" and "\<not> has_key body ''results''"
    using that assms by (cases body) (simp_all add: get_virtual_services_def)
  have t: "get_tenants send c w = (if is_list body then body else PList [body], w')"
    if "send (get_request c ''/api/tenant'' None) w = (Inr r, w')"
    using that assms by (simp add: get_tenants_def)
  have e: "get_service_engines send c w = (if is_list body then body else PList [body], w')"
    if "send (get_request c ''/api/serviceengine'' None) w = (Inr r, w')"
    using that assms by (simp add: get_service_engines_def)
  show ?thesis using vs vl vb t e by simp
qed

theorem listing_normalisation_witness:
  "get_virtual_services (fixed_reply (PDict [(''results'', PList [demo_service])])) demo_client ()
     = (PList [demo_service], ()) \<and>
   get_virtual_services (fixed_reply (PList [demo_service, PNone])) demo_client ()
     = (PList [demo_service, PNone], ()) \<and>
   get_virtual_services (fixed_reply demo_service) demo_client () = (PList [demo_service], ()) \<and>
   get_tenants (fixed_reply (PList [demo_service, PNone])) demo_client ()
     = (PList [demo_service, PNone], ()) \<and>
   get_tenants (fixed_reply demo_service) demo_client () = (PList [demo_service], ()) \<and>
   get_service_engines (fixed_reply (PList [demo_service, PNone])) demo_client ()
     = (PList [demo_service, PNone], ()) \<and>
   get_service_engines (fixed_reply demo_service) demo_client () = (PList [demo_service], ())"
  using
    listing_normalisation [where send = "fixed_reply (PDict [(''results'', PList [demo_service])])"
      and r = "\<lparr>status_code = 200, json = Inr (PDict [(''results'', PList [demo_service])])\<rparr>"
      and body = "PDict [(''results'', PList [demo_service])]" and c = demo_client
      and w = "()" and w' = "()" and d = "[(''results'', PList [demo_service])]"
      and xs = "[demo_service]"]
    listing_normalisation [where send = "fixed_reply (PList [demo_service, PNone])"
      and r = "\<lparr>status_code = 200, json = Inr (PList [demo_service, PNone])\<rparr>"
      and body = "PList [demo_service, PNone]" and c = demo_client and w = "()" and w' = "()"]
    listing_normalisation [where send = "fixed_reply demo_service"
      and r = "\<lparr>status_code = 200, json = Inr demo_service\<rparr>"
      and body = demo_service and c = demo_client and w = "()" and w' = "()"]
  by (simp add: fixed_reply_def demo_service_def)



text \<open>
  Claim C9. A login answered with status 200 and a JSON object that has no
  \<^verbatim>\<open>token\<close> field returns \<^verbatim>\<open>False\<close> (slicing the absent token for the log line
  raises and is caught), and the client's token has by then been overwritten with
  \<^verbatim>\<open>None\<close>: a token established before is lost although the login reported
  failure.
\<close>

theorem login_without_token_field:
  fixes send :: "'w transport"
  assumes "send (login_request c username password) w = (Inr r, w')"
    and "status_code r = 200" and "json r = Inr (PDict d)" and "map_of d ''token'' = None"
  shows "login con send c username password w = (False, c\<lparr>token := PNone\<rparr>, w')"
  using assms by (simp add: login_def dict_get_def)

theorem login_without_token_field_witness:
  "token demo_client = PStr ''t0k3n'' \<and>
   login wide_console (fixed_reply (PDict [(''message'', PStr ''ok'')])) demo_client (PStr ''admin'') (PStr ''pw'') ()
     = (False, demo_client\<lparr>token := PNone\<rparr>, ())"
  using login_without_token_field [where con = wide_console and send = "fixed_reply (PDict [(''message'', PStr ''ok'')])"
      and c = demo_client and username = "PStr ''admin''" and password = "PStr ''pw''"
      and w = "()" and w' = "()"
      and r = "\<lparr>status_code = 200, json = Inr (PDict [(''message'', PStr ''ok'')])\<rparr>"
      and d = "[(''message'', PStr ''ok'')]"]
  by (simp add: fixed_reply_def demo_client_def)

subsection \<open>The configuration loader\<close>



subsection \<open>Lookup by name\<close>


text \<open>One line that interpolates one value is written exactly when the value can be.\<close>

lemma echo_printable: "printable con v \<Longrightarrow> echo con [v] = Inr ()"
  by (simp add: echo_def)

lemma echo_unprintable:
  "\<not> printable con v \<Longrightarrow> echo con [v] = Inl (Raise UnicodeEncodeError (refusal con v))"
  by (simp add: echo_def)




subsection \<open>Registration and setup\<close>

text \<open>
  \<^verbatim>\<open>register\<close> returns a boolean on every path, and \<^verbatim>\<open>True\<close> exactly when the
  request is answered with status 200 or 409 and the line that reports it is
  written.
\<close>

lemma register_status:
  fixes send :: "'w transport"
  shows "fst (register con send c username password w) \<longleftrightarrow>
    (case fst (send (register_request c username password) w) of
       Inl e \<Rightarrow> False
     | Inr r \<Rightarrow> (status_code r = 200 \<or> status_code r = 409) \<and> printable con username)"
  by (cases "send (register_request c username password) w"; cases "printable con username")
     (auto simp: register_def echo_printable echo_unprintable split: sum.splits)

text \<open>
  With a base URL and both credentials configured, and a console that writes the
  username and the check mark, the setup registers, then logs in whatever the
  registration returned, and returns what the login returned.
\<close>

lemma setup_reaches_login:
  fixes send :: "'w transport"
  assumes "config (config_loader fw) = PDict cfg"
    "map_of cfg ''api'' = Some (PDict a)" "map_of a ''base_url'' = Some (PStr url)" "url \<noteq> []"
    "map_of cfg ''credentials'' = Some (PDict cr)"
    "map_of cr ''username'' = Some u" "truthy u" "map_of cr ''password'' = Some p" "truthy p"
    "printable con u" "printable con (PStr check_mark)"
  shows "TestFramework_setup con send fw w =
      (let c0 = \<lparr>base_url = rstrip_slash url, timeout = dict_get a ''timeout'' (PInt 30),
                 token = PNone\<rparr>;
           after = login con send c0 u p (snd (register con send c0 u p w))
       in (fst after, fw\<lparr>api_client := Some (fst (snd after))\<rparr>, snd (snd after)))"
  using assms
  by (simp add: TestFramework_setup_def get_api_config_def get_credentials_def get_timeout_def
      setting_missing_def dict_get_def dict_item_def echo_printable Let_def split: prod.splits)

text \<open>
  On a service that refuses the registration and accepts the login, the setup
  sends both requests and succeeds.
\<close>

lemma setup_after_refused_registration:
  "\<not> fst (register wide_console (logged refusing_service) fresh_client (PStr ''admin'')
         (PStr ''pw'') []) \<and>
   fst (TestFramework_setup wide_console (logged refusing_service)
         \<lparr>config_loader = \<lparr>config_file = ''test_config.yaml'', config = demo_config\<rparr>,
          api_client = None\<rparr> []) \<and>
   map req_url (snd (snd (TestFramework_setup wide_console (logged refusing_service)
         \<lparr>config_loader = \<lparr>config_file = ''test_config.yaml'', config = demo_config\<rparr>,
          api_client = None\<rparr> []))) = [''http://lb/register'', ''http://lb/login'']"
  by (simp add: TestFramework_setup_def get_api_config_def get_credentials_def get_timeout_def
      setting_missing_def demo_config_def logged_def refusing_service_def fresh_client_def
      register_request_def login_request_def register_def login_def rstrip_slash_def dict_get_def
      dict_item_def no_json_def echo_def wide_console_def is_ascii_def Let_def)

text \<open>
  Claim C7 fails on the code. The registration of the user \<^verbatim>\<open>pawel\<close>, spelt with
  the Polish letter, is answered with status 200. \<^verbatim>\<open>register\<close> prints the line of
  success inside its \<^verbatim>\<open>try\<close>; on a console that cannot encode the name the line
  raises \<^verbatim>\<open>UnicodeEncodeError\<close>, the handler catches it, and the method returns
  \<^verbatim>\<open>False\<close> for a registration that succeeded. On a console that writes the name
  the same call returns \<^verbatim>\<open>True\<close>.
\<close>

theorem register_unwritten_line:
  "fst (fixed_reply PNone (register_request fresh_client pawel (PStr ''pw'')) ())
     = Inr \<lparr>status_code = 200, json = Inr PNone\<rparr> \<and>
   \<not> printable narrow_console pawel \<and>
   register narrow_console (fixed_reply PNone) fresh_client pawel (PStr ''pw'') () = (False, ()) \<and>
   register wide_console (fixed_reply PNone) fresh_client pawel (PStr ''pw'') () = (True, ())"
  by (simp add: register_def fixed_reply_def echo_def narrow_console_def wide_console_def
      pawel_def is_ascii_def)

subsection \<open>The stages\<close>

text \<open>
  Every stage that returns gives a dictionary whose \<^verbatim>\<open>status\<close> is \<^verbatim>\<open>success\<close> or
  \<^verbatim>\<open>failed\<close>, stores it in its own slot and touches no other slot; a stage that
  raises leaves the orchestrator as it was.
\<close>

lemma bindE_eq_Inr: "bindE m f = Inr y \<longleftrightarrow> (\<exists>x. m = Inr x \<and> f x = Inr y)"
  by (cases m) simp_all



lemma failed_result_status: "has_status (failed_result e)"
  by (simp add: has_status_def failed_result_def)


lemma pre_validation_result_status: "pre_validation_result con n v = Inr d \<Longrightarrow> has_status d"
  by (auto simp: pre_validation_result_def has_status_def bindE_eq_Inr split: if_splits)




lemma stage_2_status: "stage_2_pre_validation con api s = (Inr v, s2) \<Longrightarrow> has_status v"
  by (auto simp: stage_2_pre_validation_def pre_validation_try_def caught_def failed_result_status
      pre_validation_result_status split: prod.splits sum.splits)



lemma stage_1_results:
  "test_results (snd (stage_1_pre_fetcher con api s)) =
     (test_results s)\<lparr>pre_fetcher := Some (fst (stage_1_pre_fetcher con api s))\<rparr>"
  "stdout (snd (stage_1_pre_fetcher con api s)) = stdout s"
  "target_vs_name (snd (stage_1_pre_fetcher con api s)) = target_vs_name s"
  by (simp_all add: stage_1_pre_fetcher_def split: prod.splits)

lemma stage_2_results:
  "stage_2_pre_validation con api s = (Inr v, s2) \<Longrightarrow>
     test_results s2 = (test_results s)\<lparr>pre_validation := Some v\<rparr> \<and> stdout s2 = stdout s"
  by (auto simp: stage_2_pre_validation_def split: prod.splits sum.splits)



lemma stage_raises_unchanged:
  "stage_2_pre_validation con api s = (Inl e, s2) \<Longrightarrow> s2 = s"
  "stage_3_task_trigger con api u s = (Inl e, s3) \<Longrightarrow> s3 = s"
  "stage_4_post_validation con api u s = (Inl e, s4) \<Longrightarrow> s4 = s"
  by (auto simp: stage_2_pre_validation_def stage_3_task_trigger_def stage_4_post_validation_def
      split: prod.splits sum.splits)

lemma has_status_item:
  "has_status d \<Longrightarrow> \<exists>st. dict_item d ''status'' = Inr (PStr st) \<and> dict_get d ''status'' dflt = PStr st"
  by (auto simp: has_status_def dict_item_def dict_get_def)







lemma say_fields:
  "test_results (say ls s) = test_results s" "world (say ls s) = world s"
  "target_vs_name (say ls s) = target_vs_name s" "stdout (say ls s) = stdout s @ ls"
  by (simp_all add: say_def)



lemma workflow_stops:
  assumes "stage_2_pre_validation con api (snd (stage_1_pre_fetcher con api (say workflow_banner s)))
      = (Inr v, s2)"
    and "dict_get v ''status'' PNone \<noteq> PStr ''success''"
  shows "run_full_workflow con api s =
    (Inr (test_results s2),
     say [CHR 0x0A # ''[WORKFLOW] Pre-validation failed. Stopping workflow.''] s2)"
proof -
  have "has_status v" using assms(1) by (rule stage_2_status)
  then obtain st where "dict_item v ''status'' = Inr (PStr st)" "dict_get v ''status'' PNone = PStr st"
    using has_status_item by blast
  with assms show ?thesis
    by (simp add: run_full_workflow_def case_prod_beta say_fields Let_def)
qed


text \<open>Unfolding the client, the stages and the summary on a concrete service.\<close>

lemmas client_eval =
  client_api_def returns_def get_tenants_def get_virtual_services_def get_service_engines_def
  get_virtual_service_by_name_def get_virtual_service_by_uuid_def update_virtual_service_def
  get_request_def update_request_def get_headers_def dict_get_def dict_item_def
  fixed_reply_def logged_def refusing_service_def demo_client_def demo_service_def no_json_def
  handler_naming_def echo_def wide_console_def narrow_console_def is_ascii_def

lemmas stage_eval =
  stage_1_pre_fetcher_def pre_fetcher_try_def pre_fetcher_result_def count_of_def show_listing_def
  stage_2_pre_validation_def pre_validation_try_def pre_validation_result_def
  stage_3_task_trigger_def task_trigger_try_def task_trigger_result_def
  stage_4_post_validation_def post_validation_try_def post_validation_result_def
  caught_def failed_result_def TestOrchestrator_def say_def

lemmas summary_eval =
  print_summary_def summary_line_def stage_status_def status_symbol_def items_def
  all_success_def overall_status_def workflow_banner_def check_mark_def cross_mark_def
  circle_mark_def

subsection \<open>Stage 1\<close>












subsection \<open>The workflow driver\<close>

lemma rule_length: "length rule = 70"
  by (simp add: rule_def)

text \<open>
  Claim C1, as stated, fails: when stage 2 fails, \<^verbatim>\<open>run_full_workflow\<close> returns
  before it calls \<^verbatim>\<open>_print_summary\<close>, so no summary and no verdict is printed. Here
  the listing is empty, stage 2 reports \<^verbatim>\<open>failed\<close>, and the workflow prints its
  banner and the line that it stops, nothing else: no line gives a verdict.
\<close>

theorem stop_counterexample:
  "stage_status (pre_validation (test_results (snd (run_full_workflow wide_console
      (client_api wide_console (fixed_reply (PList [])) demo_client) (TestOrchestrator ''vs-1'' ())))))
     = PStr ''failed'' \<and>
   stdout (snd (run_full_workflow wide_console
      (client_api wide_console (fixed_reply (PList [])) demo_client) (TestOrchestrator ''vs-1'' ())))
     = [CHR 0x0A # rule, ''STARTING FULL TEST WORKFLOW'', rule,
        CHR 0x0A # ''[WORKFLOW] Pre-validation failed. Stopping workflow.''] \<and>
   CHR 0x0A # ''OVERALL TEST RESULT: FAILED'' \<notin> set (stdout (snd (run_full_workflow wide_console
      (client_api wide_console (fixed_reply (PList [])) demo_client) (TestOrchestrator ''vs-1'' ()))))"
proof -
  let ?run = "run_full_workflow wide_console
      (client_api wide_console (fixed_reply (PList [])) demo_client) (TestOrchestrator ''vs-1'' ())"
  have a: "stage_status (pre_validation (test_results (snd ?run))) = PStr ''failed''"
    and b: "stdout (snd ?run) = [CHR 0x0A # rule, ''STARTING FULL TEST WORKFLOW'', rule,
        CHR 0x0A # ''[WORKFLOW] Pre-validation failed. Stopping workflow.'']"
    by (simp_all add: run_full_workflow_def client_eval stage_eval summary_eval Let_def)
  have n1: "''OVERALL TEST RESULT: FAILED'' \<noteq> rule"
  proof
    assume "''OVERALL TEST RESULT: FAILED'' = rule"
    then have "length ''OVERALL TEST RESULT: FAILED'' = length rule" by (rule arg_cong)
    then show False by (simp add: rule_length)
  qed
  have n2: "CHR 0x0A # ''OVERALL TEST RESULT: FAILED'' \<noteq> rule"
  proof
    assume "CHR 0x0A # ''OVERALL TEST RESULT: FAILED'' = rule"
    then have "length (CHR 0x0A # ''OVERALL TEST RESULT: FAILED'') = length rule" by (rule arg_cong)
    then show False by (simp add: rule_length)
  qed
  from n1 n2
  show ?thesis by (simp add: a b)
qed

text \<open>
  Claim C1, amended. If stage 2 returns a result whose status is not
  \<^verbatim>\<open>success\<close>, the workflow returns its results without raising and without a
  further request, the slot of stage 2 holds that result, the slots of stages 3 and
  4 are absent as they were before the run, and the verdict that the summary
  computes for the returned results is \<^verbatim>\<open>FAILED\<close>.
\<close>

theorem stop_after_failed_pre_validation:
  assumes "stage_2_pre_validation con api (snd (stage_1_pre_fetcher con api (say workflow_banner s)))
      = (Inr v, s2)"
    and "dict_get v ''status'' PNone \<noteq> PStr ''success''"
    and "task_trigger (test_results s) = None" and "post_validation (test_results s) = None"
  shows "fst (run_full_workflow con api s) = Inr (test_results (snd (run_full_workflow con api s))) \<and>
    world (snd (run_full_workflow con api s)) = world s2 \<and>
    pre_validation (test_results (snd (run_full_workflow con api s))) = Some v \<and>
    task_trigger (test_results (snd (run_full_workflow con api s))) = None \<and>
    post_validation (test_results (snd (run_full_workflow con api s))) = None \<and>
    overall_status (test_results (snd (run_full_workflow con api s))) = ''FAILED''"
proof -
  let ?s0 = "say workflow_banner s"
  have r2: "test_results s2 =
      (test_results s)\<lparr>pre_fetcher := Some (fst (stage_1_pre_fetcher con api ?s0)),
        pre_validation := Some v\<rparr>"
    using stage_2_results [OF assms(1)] by (simp add: stage_1_results say_fields)
  have "\<not> all_success (test_results s2)"
    using assms(2) by (simp add: all_success_def items_def r2)
  then have "overall_status (test_results s2) = ''FAILED''"
    by (simp add: overall_status_def)
  moreover have "task_trigger (test_results s2) = None" "post_validation (test_results s2) = None"
    "pre_validation (test_results s2) = Some v"
    using assms(3,4) by (simp_all add: r2)
  ultimately show ?thesis
    by (simp add: workflow_stops [OF assms(1,2)] say_fields)
qed

theorem stop_after_failed_pre_validation_witness:
  "stage_status (pre_validation (test_results (snd (run_full_workflow wide_console
      (client_api wide_console (fixed_reply (PList [])) demo_client) (TestOrchestrator ''vs-1'' ())))))
     = PStr ''failed'' \<and>
   fst (run_full_workflow wide_console
      (client_api wide_console (fixed_reply (PList [])) demo_client) (TestOrchestrator ''vs-1'' ())) =
     Inr (test_results (snd (run_full_workflow wide_console
      (client_api wide_console (fixed_reply (PList [])) demo_client) (TestOrchestrator ''vs-1'' ())))) \<and>
   task_trigger (test_results (snd (run_full_workflow wide_console
      (client_api wide_console (fixed_reply (PList [])) demo_client) (TestOrchestrator ''vs-1'' ()))))
     = None \<and>
   post_validation (test_results (snd (run_full_workflow wide_console
      (client_api wide_console (fixed_reply (PList [])) demo_client) (TestOrchestrator ''vs-1'' ()))))
     = None \<and>
   overall_status (test_results (snd (run_full_workflow wide_console
      (client_api wide_console (fixed_reply (PList [])) demo_client) (TestOrchestrator ''vs-1'' ()))))
     = ''FAILED''"
proof -
  let ?api = "client_api wide_console (fixed_reply (PList [])) demo_client"
  let ?s = "TestOrchestrator ''vs-1'' ()"
  let ?st2 = "stage_2_pre_validation wide_console ?api
      (snd (stage_1_pre_fetcher wide_console ?api (say workflow_banner ?s)))"
  let ?missing = "[(''status'', PStr ''failed''),
      (''error'', PStr (''Virtual service '' @ quoted ''vs-1'' @ '' not found''))]"
  have "fst ?st2 = Inr ?missing"
    by (simp add: client_eval stage_eval)
  then have returned: "?st2 = (Inr ?missing, snd ?st2)"
    by (simp add: prod_eq_iff)
  have failed: "dict_get ?missing ''status'' PNone \<noteq> PStr ''success''"
    by (simp add: dict_get_def)
  have empty: "task_trigger (test_results ?s) = None" "post_validation (test_results ?s) = None"
    by (simp_all add: TestOrchestrator_def)
  from stop_after_failed_pre_validation [OF returned failed empty]
  show ?thesis by (simp add: stage_status_def dict_get_def)
qed



subsection \<open>Batch execution\<close>

text \<open>
  Reading the futures in the order of their creation gives the outcomes in that
  order, whatever the order in which the calls finished.
\<close>

lemma finish_fold:
  "fold (\<lambda>i held. if i < length outs then held(i \<mapsto> outs ! i) else held) finished held0 i =
     (if i \<in> set finished \<and> i < length outs then Some (outs ! i) else held0 i)"
  by (induction finished arbitrary: held0) auto

lemma finish_lookup:
  "finish outs finished i = (if i \<in> set finished \<and> i < length outs then Some (outs ! i) else None)"
  by (simp add: finish_def finish_fold)

lemma read_results_in_order:
  "\<forall>i \<in> set is. held i = Some (outs ! i) \<Longrightarrow>
     read_results held is = Some (in_order (map (\<lambda>i. outs ! i) is))"
proof (induction "is")
  case Nil
  then show ?case by simp
next
  case (Cons i "is")
  then show ?case by (cases "outs ! i") (auto split: sum.splits)
qed

lemma pool_results_in_order:
  assumes "set finished = {0..<length outs}"
  shows "pool_results outs finished = Some (in_order outs)"
proof -
  have held: "\<forall>i \<in> set [0..<length outs]. finish outs finished i = Some (outs ! i)"
    using assms by (simp add: finish_lookup)
  then have "read_results (finish outs finished) [0..<length outs] =
      Some (in_order (map (\<lambda>i. outs ! i) [0..<length outs]))"
    by (rule read_results_in_order)
  moreover have "all_finished (finish outs finished) (length outs)"
    using held by (simp add: all_finished_def list_all_iff)
  ultimately show ?thesis by (simp add: pool_results_def Let_def map_nth)
qed

lemma in_order_values:
  "in_order outs = Inr rs \<Longrightarrow> length rs = length outs \<and> (\<forall>i < length outs. outs ! i = Inr (rs ! i))"
proof (induction outs arbitrary: rs rule: in_order.induct)
  case 1
  then show ?case by simp
next
  case (2 e rest)
  then show ?case by simp
next
  case (3 result rest)
  then obtain rs' where rs': "in_order rest = Inr rs'" "rs = result # rs'"
    by (auto split: sum.splits)
  with 3 have "length rs' = length rest" "\<forall>i < length rest. rest ! i = Inr (rs' ! i)" by auto
  with rs' show ?case by (auto simp: nth_Cons split: nat.splits)
qed

lemma in_order_raises:
  "in_order outs = Inl e \<Longrightarrow> \<exists>i < length outs. outs ! i = Inl e"
proof (induction outs rule: in_order.induct)
  case 1
  then show ?case by simp
next
  case (2 e' rest)
  then show ?case by auto
next
  case (3 result rest)
  then have "in_order rest = Inl e" by (auto split: sum.splits)
  with 3 obtain i where "i < length rest" "rest ! i = Inl e" by auto
  then show ?case by (intro exI [of _ "Suc i"]) simp
qed

lemma outcomes_length [simp]: "length (outcomes run cases worlds) = length cases"
  by (simp add: outcomes_def submitted_def)

lemma outcomes_nth:
  "i < length cases \<Longrightarrow> outcomes run cases worlds ! i = fst (run (cases ! i) (worlds i))"
  by (simp add: outcomes_def submitted_def)

lemma outcomes_Cons:
  "outcomes run (c # cases) worlds = fst (run c (worlds 0)) # outcomes run cases (\<lambda>i. worlds (Suc i))"
proof -
  have "[0..<Suc (length cases)] = 0 # map Suc [0..<length cases]"
    by (simp add: upt_conv_Cons map_Suc_upt del: upt_Suc)
  then show ?thesis
    by (simp add: outcomes_def submitted_def comp_def del: upt_Suc)
qed

lemma run_each_in_order:
  "fst (run_each run cases w) = in_order (outcomes run cases (seq_worlds run cases w))"
proof (induction cases arbitrary: w)
  case Nil
  then show ?case by (simp add: outcomes_def submitted_def)
next
  case (Cons c cases)
  have shift: "(\<lambda>i. seq_worlds run (c # cases) w (Suc i)) = seq_worlds run cases (snd (run c w))"
    by (rule ext) (simp add: seq_worlds_def)
  have zero: "seq_worlds run (c # cases) w 0 = w" by (simp add: seq_worlds_def)
  show ?case
    using Cons.IH [of "snd (run c w)"]
    by (cases "run c w"; cases "fst (run c w)")
       (auto simp: outcomes_Cons shift zero split: prod.splits sum.splits)
qed


lemma shipped_length [simp]: "length (shipped carried outs) = length outs"
  by (simp add: shipped_def)

lemma shipped_nth:
  "i < length outs \<Longrightarrow>
     shipped carried outs ! i = (case carried i of Some e \<Rightarrow> Inl e | None \<Rightarrow> outs ! i)"
  by (simp add: shipped_def)

lemma in_order_returns: "(\<forall>i < length outs. \<exists>v. outs ! i = Inr v) \<Longrightarrow> \<exists>rs. in_order outs = Inr rs"
proof (induction outs rule: in_order.induct)
  case 1
  then show ?case by simp
next
  case (2 e rest)
  then show ?case by fastforce
next
  case (3 result rest)
  then have "\<forall>i < length rest. \<exists>v. rest ! i = Inr v" by fastforce
  with 3 obtain rs where "in_order rest = Inr rs" by blast
  then show ?case by simp
qed

lemma gather_in_order:
  assumes "set finished = {0..<length outs}"
  shows "(gather outs finished = Some (Inr rs)) = (in_order outs = Inr rs)"
    and "\<exists>r. gather outs finished = Some r"
    and "gather outs finished = Some (Inl e) \<Longrightarrow> \<exists>i < length outs. outs ! i = Inl e"
proof -
  let ?raised = "List.map_filter
      (\<lambda>i. case finish outs finished i of Some (Inl e) \<Rightarrow> Some e | _ \<Rightarrow> None) finished"
  have held: "\<forall>i \<in> set [0..<length outs]. finish outs finished i = Some (outs ! i)"
    using assms by (simp add: finish_lookup)
  then have read: "read_results (finish outs finished) [0..<length outs] = Some (in_order outs)"
    using read_results_in_order [of "[0..<length outs]" "finish outs finished" outs]
    by (simp add: map_nth)
  have raised: "set ?raised = {e. \<exists>i < length outs. outs ! i = Inl e}"
  proof -
    have "(e \<in> set ?raised) = (\<exists>i < length outs. outs ! i = Inl e)" for e
    proof
      assume "e \<in> set ?raised"
      then obtain i where i: "i \<in> set finished"
          "(case finish outs finished i of Some (Inl e) \<Rightarrow> Some e | _ \<Rightarrow> None) = Some e"
        by (auto simp: List.map_filter_def)
      then have "i < length outs" "outs ! i = Inl e"
        using assms by (auto simp: finish_lookup split: sum.splits if_splits)
      then show "\<exists>i < length outs. outs ! i = Inl e" by blast
    next
      assume "\<exists>i < length outs. outs ! i = Inl e"
      then obtain i where i: "i < length outs" "outs ! i = Inl e" by blast
      then have "i \<in> set finished"
          "(case finish outs finished i of Some (Inl e) \<Rightarrow> Some e | _ \<Rightarrow> None) = Some e"
        using assms by (simp_all add: finish_lookup)
      then show "e \<in> set ?raised"
        by (force simp: List.map_filter_def image_iff)
    qed
    then show ?thesis by blast
  qed
  show "(gather outs finished = Some (Inr rs)) = (in_order outs = Inr rs)"
  proof (cases ?raised)
    case Nil
    then show ?thesis using read by (simp add: gather_def Let_def)
  next
    case (Cons e es)
    then have "e \<in> set ?raised" by simp
    then obtain i where "i < length outs" "outs ! i = Inl e" using raised by blast
    then have "in_order outs \<noteq> Inr rs" using in_order_values [of outs rs] by auto
    then show ?thesis using Cons by (simp add: gather_def Let_def)
  qed
  show "\<exists>r. gather outs finished = Some r"
    using read by (cases ?raised) (simp_all add: gather_def Let_def)
  show "gather outs finished = Some (Inl e) \<Longrightarrow> \<exists>i < length outs. outs ! i = Inl e"
  proof (cases ?raised)
    case Nil
    assume "gather outs finished = Some (Inl e)"
    then have "in_order outs = Inl e" using Nil read by (simp add: gather_def Let_def)
    then show ?thesis by (rule in_order_raises)
  next
    case (Cons e' es)
    assume "gather outs finished = Some (Inl e)"
    then have "e' = e" using Cons by (simp add: gather_def Let_def)
    then have "e \<in> set ?raised" using Cons by simp
    then show ?thesis using raised by blast
  qed
qed

lemma all_finished_outcomes:
  "set finished = {0..<length outs} \<Longrightarrow> all_finished (finish outs finished) (length outs)"
  by (simp add: all_finished_def list_all_iff finish_lookup)

lemma sequential_in_order:
  "fst (run_tests_sequentially run (PList cases) w) =
     in_order (outcomes run cases (seq_worlds run cases w))"
  by (simp add: run_tests_sequentially_def run_each_in_order)

lemma threading_in_order:
  assumes "set finished = {0..<length cases}" "get_max_workers l = Inr m" "printable con m"
    "pool m = None"
  shows "run_tests_in_parallel_threading con pool l run (PList cases) worlds finished =
     Some (in_order (outcomes run cases worlds))"
  using assms pool_results_in_order [of finished "outcomes run cases worlds"]
  by (simp add: run_tests_in_parallel_threading_def echo_printable)

lemma multiprocessing_in_order:
  assumes "set finished = {0..<length cases}" "get_max_workers l = Inr m" "printable con m"
    "pool m = None"
  shows "run_tests_in_parallel_multiprocessing con pool carried l run (PList cases) worlds finished =
     Some (in_order (shipped carried (outcomes run cases worlds)))"
  using assms pool_results_in_order [of finished "shipped carried (outcomes run cases worlds)"]
  by (simp add: run_tests_in_parallel_multiprocessing_def echo_printable)

lemma async_in_order:
  assumes "set finished = {0..<length cases}"
  shows "(run_tests_async run (PList cases) worlds finished = Some (Inr rs)) =
           (in_order (outcomes run cases worlds) = Inr rs)"
    and "\<exists>r. run_tests_async run (PList cases) worlds finished = Some r"
    and "run_tests_async run (PList cases) worlds finished = Some (Inl e) \<Longrightarrow>
           \<exists>i < length cases. fst (run (cases ! i) (worlds i)) = Inl e"
proof -
  let ?outs = "outcomes run cases worlds"
  have fin: "set finished = {0..<length ?outs}" using assms by simp
  have all: "all_finished (finish ?outs finished) (length cases)"
    using all_finished_outcomes [OF fin] by simp
  have eq: "run_tests_async run (PList cases) worlds finished = gather ?outs finished"
    using all by (simp add: run_tests_async_def split: option.splits)
  show "(run_tests_async run (PList cases) worlds finished = Some (Inr rs)) =
           (in_order (outcomes run cases worlds) = Inr rs)"
    using gather_in_order(1) [OF fin] eq by simp
  show "\<exists>r. run_tests_async run (PList cases) worlds finished = Some r"
    using gather_in_order(2) [OF fin] eq by simp
  show "run_tests_async run (PList cases) worlds finished = Some (Inl e) \<Longrightarrow>
           \<exists>i < length cases. fst (run (cases ! i) (worlds i)) = Inl e"
    using gather_in_order(3) [OF fin, of e] eq by (auto simp: outcomes_nth)
qed

lemma in_order_outcomes:
  assumes "in_order (outcomes run cases ws) = Inr rs"
  shows "length rs = length cases \<and> (\<forall>i < length cases. fst (run (cases ! i) (ws i)) = Inr (rs ! i))"
  using in_order_values [OF assms] by (auto simp: outcomes_nth)

lemma in_order_shipped:
  assumes "in_order (shipped carried (outcomes run cases ws)) = Inr rs"
  shows "length rs = length cases \<and>
     (\<forall>i < length cases. carried i = None \<and> fst (run (cases ! i) (ws i)) = Inr (rs ! i))"
proof -
  have len: "length rs = length cases"
    and nth: "\<forall>i < length cases. shipped carried (outcomes run cases ws) ! i = Inr (rs ! i)"
    using in_order_values [OF assms] by auto
  have "carried i = None \<and> fst (run (cases ! i) (ws i)) = Inr (rs ! i)" if "i < length cases" for i
    using nth that by (auto simp: shipped_nth outcomes_nth split: option.splits)
  with len show ?thesis by blast
qed

text \<open>
  Claim C8. Every call that was submitted finishes, in an order \<open>finished\<close> that is
  any arrangement of the positions of the test cases; the call at a position has
  the outcome of \<^verbatim>\<open>run_test_case\<close> on the test case at that position, in the
  world that call observes. Then each strategy gives its results in the order of
  the list of test cases, whatever \<open>finished\<close> is. The sequential loop and the two
  pools give the values of the outcomes in that order, or the first exception in
  that order (the pools once \<^verbatim>\<open>max_workers\<close> is read and written and the pool is
  built). \<^verbatim>\<open>run_tests_async\<close> always ends, and it returns a list exactly when the
  outcomes in that order give one, the same list. Such a list exists when every
  call returns, it is as long as the list of test cases, and its entry at a
  position is the value that the call for the test case at that position returned.
\<close>

theorem results_in_submission_order:
  assumes "set finished = {0..<length cases}"
  shows
    "fst (run_tests_sequentially run (PList cases) w) =
       in_order (outcomes run cases (seq_worlds run cases w)) \<and>
     (get_max_workers l = Inr m \<and> printable con m \<and> pool m = None \<longrightarrow>
        run_tests_in_parallel_threading con pool l run (PList cases) worlds finished =
          Some (in_order (outcomes run cases worlds)) \<and>
        run_tests_in_parallel_multiprocessing con pool carried l run (PList cases) worlds finished =
          Some (in_order (shipped carried (outcomes run cases worlds)))) \<and>
     (\<exists>r. run_tests_async run (PList cases) worlds finished = Some r) \<and>
     (\<forall>rs. (run_tests_async run (PList cases) worlds finished = Some (Inr rs)) =
        (in_order (outcomes run cases worlds) = Inr rs)) \<and>
     (\<forall>ws rs. in_order (outcomes run cases ws) = Inr rs \<longrightarrow>
        length rs = length cases \<and>
        (\<forall>i < length cases. fst (run (cases ! i) (ws i)) = Inr (rs ! i))) \<and>
     (\<forall>ws rs. in_order (shipped carried (outcomes run cases ws)) = Inr rs \<longrightarrow>
        length rs = length cases \<and>
        (\<forall>i < length cases. carried i = None \<and> fst (run (cases ! i) (ws i)) = Inr (rs ! i))) \<and>
     (\<forall>ws. (\<forall>i < length cases. \<exists>result. fst (run (cases ! i) (ws i)) = Inr result) \<longrightarrow>
        (\<exists>rs. in_order (outcomes run cases ws) = Inr rs))"
proof (intro conjI impI allI)
  fix ws
  assume "\<forall>i < length cases. \<exists>result. fst (run (cases ! i) (ws i)) = Inr result"
  then have "\<forall>i < length (outcomes run cases ws). \<exists>result. outcomes run cases ws ! i = Inr result"
    by (simp add: outcomes_nth)
  then show "\<exists>rs. in_order (outcomes run cases ws) = Inr rs"
    by (rule in_order_returns)
next
  show "fst (run_tests_sequentially run (PList cases) w) =
       in_order (outcomes run cases (seq_worlds run cases w))"
    by (rule sequential_in_order)
next
  assume "get_max_workers l = Inr m \<and> printable con m \<and> pool m = None"
  then show "run_tests_in_parallel_threading con pool l run (PList cases) worlds finished =
          Some (in_order (outcomes run cases worlds))"
    using threading_in_order [OF assms] by blast
next
  assume "get_max_workers l = Inr m \<and> printable con m \<and> pool m = None"
  then show "run_tests_in_parallel_multiprocessing con pool carried l run (PList cases) worlds finished =
          Some (in_order (shipped carried (outcomes run cases worlds)))"
    using multiprocessing_in_order [OF assms] by blast
next
  show "\<exists>r. run_tests_async run (PList cases) worlds finished = Some r"
    by (rule async_in_order(2) [OF assms])
next
  fix rs
  show "(run_tests_async run (PList cases) worlds finished = Some (Inr rs)) =
        (in_order (outcomes run cases worlds) = Inr rs)"
    by (rule async_in_order(1) [OF assms])
next
  fix ws rs
  assume "in_order (outcomes run cases ws) = Inr rs"
  then show "length rs = length cases" using in_order_outcomes by blast
next
  fix ws rs i
  assume "in_order (outcomes run cases ws) = Inr rs" "i < length cases"
  then show "fst (run (cases ! i) (ws i)) = Inr (rs ! i)" using in_order_outcomes by blast
next
  fix ws rs
  assume "in_order (shipped carried (outcomes run cases ws)) = Inr rs"
  then show "length rs = length cases" using in_order_shipped by blast
next
  fix ws rs i
  assume "in_order (shipped carried (outcomes run cases ws)) = Inr rs" "i < length cases"
  then show "carried i = None" using in_order_shipped by blast
next
  fix ws rs i
  assume "in_order (shipped carried (outcomes run cases ws)) = Inr rs" "i < length cases"
  then show "fst (run (cases ! i) (ws i)) = Inr (rs ! i)" using in_order_shipped by blast
qed


theorem results_in_submission_order_witness:
  "set [2, 0, 1] = {0..<length [PDict [(''name'', PStr ''a'')], PDict [(''name'', PStr ''b'')],
        PDict [(''name'', PStr ''c'')]]} \<and>
   three_cases = PList [PDict [(''name'', PStr ''a'')], PDict [(''name'', PStr ''b'')],
        PDict [(''name'', PStr ''c'')]] \<and>
   get_max_workers four_workers = Inr (PInt 4) \<and> printable wide_console (PInt 4) \<and>
   no_pool_error (PInt 4) = None \<and>
   fst (run_tests_sequentially naming_run three_cases 0) =
     Inr [PDict [(''test_name'', PStr ''a''), (''seen'', PInt 0)],
          PDict [(''test_name'', PStr ''b''), (''seen'', PInt 1)],
          PDict [(''test_name'', PStr ''c''), (''seen'', PInt 2)]] \<and>
   run_tests_in_parallel_threading wide_console no_pool_error four_workers naming_run three_cases
       apart [2, 0, 1] =
     Some (Inr [PDict [(''test_name'', PStr ''a''), (''seen'', PInt 0)],
                PDict [(''test_name'', PStr ''b''), (''seen'', PInt 10)],
                PDict [(''test_name'', PStr ''c''), (''seen'', PInt 20)]]) \<and>
   run_tests_in_parallel_multiprocessing wide_console no_pool_error nothing_carried four_workers
       naming_run three_cases apart [2, 0, 1] =
     Some (Inr [PDict [(''test_name'', PStr ''a''), (''seen'', PInt 0)],
                PDict [(''test_name'', PStr ''b''), (''seen'', PInt 10)],
                PDict [(''test_name'', PStr ''c''), (''seen'', PInt 20)]]) \<and>
   run_tests_async naming_run three_cases apart [2, 0, 1] =
     Some (Inr [PDict [(''test_name'', PStr ''a''), (''seen'', PInt 0)],
                PDict [(''test_name'', PStr ''b''), (''seen'', PInt 10)],
                PDict [(''test_name'', PStr ''c''), (''seen'', PInt 20)]])"
proof -
  let ?cases = "[PDict [(''name'', PStr ''a'')], PDict [(''name'', PStr ''b'')],
        PDict [(''name'', PStr ''c'')]]"
  have fin: "set [2, 0, 1] = {0..<length ?cases}" by auto
  have workers: "get_max_workers four_workers = Inr (PInt 4) \<and> printable wide_console (PInt 4) \<and>
      no_pool_error (PInt 4) = None"
    by (simp add: get_max_workers_def four_workers_def no_pool_error_def dict_get_def)
  have upt: "[0..<3] = [0, 1, 2]" by (simp add: upt_rec)
  have outs: "in_order (outcomes naming_run ?cases apart) =
     Inr [PDict [(''test_name'', PStr ''a''), (''seen'', PInt 0)],
          PDict [(''test_name'', PStr ''b''), (''seen'', PInt 10)],
          PDict [(''test_name'', PStr ''c''), (''seen'', PInt 20)]]"
    by (simp add: outcomes_def submitted_def upt naming_run_def apart_def dict_get_def)
  have shipped: "shipped nothing_carried (outcomes naming_run ?cases apart) =
      outcomes naming_run ?cases apart"
    by (simp add: shipped_def outcomes_def submitted_def upt nothing_carried_def)
  have seq: "in_order (outcomes naming_run ?cases (seq_worlds naming_run ?cases 0)) =
     Inr [PDict [(''test_name'', PStr ''a''), (''seen'', PInt 0)],
          PDict [(''test_name'', PStr ''b''), (''seen'', PInt 1)],
          PDict [(''test_name'', PStr ''c''), (''seen'', PInt 2)]]"
    by (simp add: outcomes_def submitted_def upt naming_run_def seq_worlds_def dict_get_def)
  show ?thesis
    using results_in_submission_order [OF fin, where run = naming_run and w = 0
        and l = four_workers and m = "PInt 4" and con = wide_console and pool = no_pool_error
        and carried = nothing_carried and worlds = apart]
      fin workers outs shipped seq
    by (simp add: three_cases_def)
qed

end
